theory Spec2Isabelle
  imports Main "HOL-Library.Sublist"
begin

section \<open>Data model\<close>

text \<open>
  Decoded JSON as the Python code sees it: \<open>None\<close>, booleans, integers, strings, lists
  and dictionaries. A dictionary is an association list in insertion order whose keys are
  distinct, as a decoded JSON object is; floating-point numbers are left out.
\<close>

datatype json =
    JNull
  | JBool bool
  | JInt int
  | JStr string
  | JList "json list"
  | JObj "(string \<times> json) list"

text \<open>Python truthiness, as \<open>if x:\<close> and \<open>not x\<close> test it.\<close>

fun truthy :: "json \<Rightarrow> bool" where
  "truthy JNull = False"
| "truthy (JBool b) = b"
| "truthy (JInt i) = (i \<noteq> 0)"
| "truthy (JStr s) = (s \<noteq> [])"
| "truthy (JList xs) = (xs \<noteq> [])"
| "truthy (JObj kvs) = (kvs \<noteq> [])"

text \<open>
  The payload of a Slack Web API response. The API types the entry \<open>ok\<close> as a boolean and
  the entries \<open>error\<close> and \<open>warning\<close> as strings, and the dataclass below declares its
  fields with these types, so the three entries are kept typed; an absent entry and an
  entry holding \<open>None\<close> are both \<open>None\<close> here, which \<open>.get(key)\<close> does not tell apart.
  Every other entry is in \<open>entries\<close>.
\<close>

record payload =
  ok_entry :: "bool option"
  error_entry :: "string option"
  warning_entry :: "string option"
  entries :: "(string \<times> json) list"

definition empty_payload :: payload where
  "empty_payload = \<lparr>ok_entry = None, error_entry = None, warning_entry = None, entries = []\<rparr>"

text \<open>\<open>models/slack_types.py\<close>: the dataclass \<open>SlackResponse\<close>, the uniform envelope.\<close>

record SlackResponse =
  ok :: bool
  data :: payload
  error :: "string option"
  warning :: "string option"

text \<open>
  Exceptions raised by the repository's own code, by the Python runtime and by the
  libraries. The argument is the message, \<open>str(e)\<close>. \<open>CancelledError\<close> stands for the
  exceptions that are not of class \<open>Exception\<close> (task cancellation, interrupts), which
  \<open>except Exception\<close> does not catch.
\<close>

datatype pyexc =
    ValueError string
  | AttributeError string
  | TypeError string
  | KeyError string
  | OSError string
  | CancelledError string

definition exc_str :: "pyexc \<Rightarrow> string" where
  "exc_str e =
     (case e of ValueError s \<Rightarrow> s | AttributeError s \<Rightarrow> s | TypeError s \<Rightarrow> s
      | KeyError s \<Rightarrow> s | OSError s \<Rightarrow> s | CancelledError s \<Rightarrow> s)"

definition is_exception :: "pyexc \<Rightarrow> bool" where
  "is_exception e = (case e of CancelledError _ \<Rightarrow> False | _ \<Rightarrow> True)"

text \<open>Values passed as keyword arguments to a remote operation.\<close>

datatype arg =
    ArgStr string
  | ArgInt int
  | ArgBool bool
  | ArgList "json list"
  | ArgBytes string

type_synonym kwargs = "(string \<times> arg) list"

text \<open>
  What awaiting a method of the SDK client does: it returns a response; or raises
  \<open>SlackApiError\<close>, whose \<open>response\<close> attribute is either a decoded payload (\<open>Inr\<close>) or an
  object that cannot be subscripted with a key, such as the HTTP response kept when the
  body is not JSON (\<open>Inl\<close>, the exception that \<open>e.response["error"]\<close> raises); or raises
  another exception of class \<open>Exception\<close>, whose \<open>str\<close> is given; or is cancelled
  while waiting, which raises \<open>CancelledError\<close> at the \<open>await\<close>.
\<close>

datatype remote_outcome =
    Returned payload
  | RaisedSlackApiError "pyexc + payload"
  | RaisedException string
  | RaisedCancelled string

text \<open>
  What \<open>httpx\<close> does on \<open>client.get(url)\<close> followed by \<open>raise_for_status()\<close>: a response
  with its \<open>content-type\<close> header and its content, an \<open>httpx.HTTPError\<close>, another
  exception of class \<open>Exception\<close>, or cancellation.
\<close>

datatype http_outcome =
    HttpResponse "string option" string
  | RaisedHTTPError string
  | RaisedOther string
  | FetchCancelled string

text \<open>The three components of \<open>urlparse\<close>'s result that the code reads.\<close>

record parse_result =
  scheme :: string
  netloc :: string
  path :: string

text \<open>
  Everything outside the repository that a call depends on: the SDK client's methods by
  name (\<open>getattr(self.client, name)\<close>, \<open>None\<close> when there is no such attribute),
  \<open>urllib.parse.urlparse\<close> (\<open>Inl\<close> when it raises), the two filesystem tests, and the
  HTTP fetch. \<open>os.path.isfile\<close> answers \<open>False\<close> whenever the underlying \<open>stat\<close> fails;
  \<open>Path(p).exists()\<close> answers \<open>False\<close> only when the entry is missing and raises \<open>OSError\<close>
  on other failures, such as a name longer than the filesystem allows (\<open>Inl\<close>, the
  message).
\<close>

record world =
  client_method :: "string \<Rightarrow> (kwargs \<Rightarrow> remote_outcome) option"
  urlparse :: "string \<Rightarrow> string + parse_result"
  os_path_isfile :: "string \<Rightarrow> bool"
  path_exists :: "string \<Rightarrow> string + bool"
  http_get :: "string \<Rightarrow> http_outcome"

text \<open>Outbound calls, in the order they are made.\<close>

datatype outbound =
    SlackCall string kwargs
  | HttpGet string

section \<open>Transport adapter: \<open>services/slack_bot_api.py\<close>\<close>

record SlackBotAPIService =
  bot_token :: string

definition sq :: string where
  "sq = [CHR 0x27]"

text \<open>\<open>__init__\<close>: the prefix check, then the two attribute assignments.\<close>

definition init :: "string \<Rightarrow> pyexc + SlackBotAPIService" where
  "init token =
     (if \<not> prefix ''xoxb-'' token
      then Inl (ValueError (''Bot token must start with '' @ sq @ ''xoxb-'' @ sq))
      else Inr \<lparr>bot_token = token\<rparr>)"

text \<open>\<open>_handle_response\<close>.\<close>

definition handle_response :: "payload \<Rightarrow> SlackResponse" where
  "handle_response response =
     \<lparr>ok = (case ok_entry response of None \<Rightarrow> False | Some b \<Rightarrow> b),
      data = response,
      error = error_entry response,
      warning = warning_entry response\<rparr>"

text \<open>
  \<open>_safe_api_call\<close>. The body of the \<open>try\<close> looks the method up and awaits it; a missing
  attribute raises \<open>AttributeError\<close> inside the \<open>try\<close>, which the second handler catches.
  The handler of \<open>SlackApiError\<close> evaluates \<open>e.response["error"]\<close>, first for the log line:
  on a decoded payload this is the entry, or \<open>None\<close> when it is absent; on a response that
  cannot be subscripted it raises, and as a handler is outside the \<open>try\<close> the exception
  leaves the function. \<open>CancelledError\<close> is not of class \<open>Exception\<close> and passes both
  handlers. The outbound call is recorded when the method is invoked.
\<close>

definition no_attribute :: "string \<Rightarrow> string" where
  "no_attribute name =
     sq @ ''AsyncWebClient'' @ sq @ '' object has no attribute '' @ sq @ name @ sq"

definition safe_api_call :: "world \<Rightarrow> string \<Rightarrow> kwargs \<Rightarrow> outbound list \<times> (pyexc + SlackResponse)" where
  "safe_api_call w method_name kw =
     (case client_method w method_name of
        None \<Rightarrow>
          ([], Inr \<lparr>ok = False, data = empty_payload,
                    error = Some (no_attribute method_name), warning = None\<rparr>)
      | Some method \<Rightarrow>
          ([SlackCall method_name kw],
           (case method kw of
              Returned response \<Rightarrow> Inr (handle_response response)
            | RaisedSlackApiError e_response \<Rightarrow>
                (case e_response of
                   Inl raised \<Rightarrow> Inl raised
                 | Inr response \<Rightarrow>
                     Inr \<lparr>ok = False, data = response,
                          error = error_entry response, warning = None\<rparr>)
            | RaisedException s \<Rightarrow>
                Inr \<lparr>ok = False, data = empty_payload, error = Some s, warning = None\<rparr>
            | RaisedCancelled s \<Rightarrow> Inl (CancelledError s))))"

subsection \<open>Building the keyword arguments\<close>

text \<open>
  \<open>if v: kwargs[key] = v\<close> for an optional string and an optional list: an absent value
  and an empty one are both skipped. The keys assigned in one function are distinct
  literals, so assignment appends.
\<close>

definition truthy_str :: "string option \<Rightarrow> bool" where
  "truthy_str v = (case v of None \<Rightarrow> False | Some s \<Rightarrow> s \<noteq> [])"

definition truthy_list :: "'a list option \<Rightarrow> bool" where
  "truthy_list v = (case v of None \<Rightarrow> False | Some xs \<Rightarrow> xs \<noteq> [])"

text \<open>An optional string that is truthy, otherwise \<open>None\<close>.\<close>

definition supplied :: "string option \<Rightarrow> string option" where
  "supplied v = (if truthy_str v then v else None)"

definition put_str :: "string \<Rightarrow> string option \<Rightarrow> kwargs \<Rightarrow> kwargs" where
  "put_str key v kw =
     (case v of None \<Rightarrow> kw | Some s \<Rightarrow> if s \<noteq> [] then kw @ [(key, ArgStr s)] else kw)"

definition put_list :: "string \<Rightarrow> json list option \<Rightarrow> kwargs \<Rightarrow> kwargs" where
  "put_list key v kw =
     (case v of None \<Rightarrow> kw | Some xs \<Rightarrow> if xs \<noteq> [] then kw @ [(key, ArgList xs)] else kw)"

text \<open>\<open>sep.join(xs)\<close>.\<close>

fun join :: "string \<Rightarrow> string list \<Rightarrow> string" where
  "join sep [] = []"
| "join sep [x] = x"
| "join sep (x # y # ys) = x @ sep @ join sep (y # ys)"

definition put_joined :: "string \<Rightarrow> string list option \<Rightarrow> kwargs \<Rightarrow> kwargs" where
  "put_joined key v kw =
     (case v of None \<Rightarrow> kw
      | Some xs \<Rightarrow> if xs \<noteq> [] then kw @ [(key, ArgStr (join '','' xs))] else kw)"

text \<open>
  A parameter typed \<open>Union[str, List[str]]\<close>, and
  \<open>if isinstance(x, list): x = ",".join(x)\<close>.
\<close>

datatype str_or_list = Single string | Several "string list"

definition comma_joined :: "str_or_list \<Rightarrow> string" where
  "comma_joined x = (case x of Several xs \<Rightarrow> join '','' xs | Single s \<Rightarrow> s)"

section \<open>Adapter operations\<close>

subsection \<open>Authentication\<close>

text \<open>\<open>test_auth\<close>.\<close>

definition test_auth ::
  "world \<Rightarrow> outbound list \<times> (pyexc + SlackResponse)" where
  "test_auth w =
     safe_api_call w ''auth_test''
       []"

subsection \<open>Chat and messaging\<close>

text \<open>\<open>send_message\<close>.\<close>

definition send_message ::
  "world \<Rightarrow> string \<Rightarrow> string option \<Rightarrow>
   json list option \<Rightarrow> json list option \<Rightarrow> string option \<Rightarrow>
   string option \<Rightarrow> string option \<Rightarrow> string option \<Rightarrow>
   outbound list \<times> (pyexc + SlackResponse)" where
  "send_message w channel text blocks attachments thread_ts username icon_emoji icon_url =
     (let kw = [(''channel'', ArgStr channel)];
          kw = put_str ''text'' text kw;
          kw = put_list ''blocks'' blocks kw;
          kw = put_list ''attachments'' attachments kw;
          kw = put_str ''thread_ts'' thread_ts kw;
          kw = put_str ''username'' username kw;
          kw = put_str ''icon_emoji'' icon_emoji kw;
          kw = put_str ''icon_url'' icon_url kw
      in safe_api_call w ''chat_postMessage'' kw)"

text \<open>\<open>update_message\<close>.\<close>

definition update_message ::
  "world \<Rightarrow> string \<Rightarrow> string \<Rightarrow> string option \<Rightarrow>
   json list option \<Rightarrow> json list option \<Rightarrow>
   outbound list \<times> (pyexc + SlackResponse)" where
  "update_message w channel ts text blocks attachments =
     (let kw = [(''channel'', ArgStr channel),
               (''ts'', ArgStr ts)];
          kw = put_str ''text'' text kw;
          kw = put_list ''blocks'' blocks kw;
          kw = put_list ''attachments'' attachments kw
      in safe_api_call w ''chat_update'' kw)"

text \<open>\<open>delete_message\<close>.\<close>

definition delete_message ::
  "world \<Rightarrow> string \<Rightarrow> string \<Rightarrow>
   outbound list \<times> (pyexc + SlackResponse)" where
  "delete_message w channel ts =
     safe_api_call w ''chat_delete''
       [(''channel'', ArgStr channel),
        (''ts'', ArgStr ts)]"

text \<open>\<open>schedule_message\<close>.\<close>

definition schedule_message ::
  "world \<Rightarrow> string \<Rightarrow> int \<Rightarrow> string option \<Rightarrow>
   json list option \<Rightarrow> json list option \<Rightarrow>
   outbound list \<times> (pyexc + SlackResponse)" where
  "schedule_message w channel post_at text blocks attachments =
     (let kw = [(''channel'', ArgStr channel),
               (''post_at'', ArgInt post_at)];
          kw = put_str ''text'' text kw;
          kw = put_list ''blocks'' blocks kw;
          kw = put_list ''attachments'' attachments kw
      in safe_api_call w ''chat_scheduleMessage'' kw)"

subsection \<open>Channels\<close>

text \<open>\<open>list_channels\<close>.\<close>

definition list_channels ::
  "world \<Rightarrow> bool \<Rightarrow> int \<Rightarrow> string option \<Rightarrow>
   string \<Rightarrow> outbound list \<times> (pyexc + SlackResponse)" where
  "list_channels w exclude_archived limit cursor types =
     (let kw = [(''exclude_archived'', ArgBool exclude_archived),
               (''limit'', ArgInt limit),
               (''types'', ArgStr types)];
          kw = put_str ''cursor'' cursor kw
      in safe_api_call w ''conversations_list'' kw)"

text \<open>\<open>get_channel_info\<close>.\<close>

definition get_channel_info ::
  "world \<Rightarrow> string \<Rightarrow> outbound list \<times> (pyexc + SlackResponse)" where
  "get_channel_info w channel =
     safe_api_call w ''conversations_info''
       [(''channel'', ArgStr channel)]"

text \<open>\<open>create_channel\<close>.\<close>

definition create_channel ::
  "world \<Rightarrow> string \<Rightarrow> bool \<Rightarrow>
   outbound list \<times> (pyexc + SlackResponse)" where
  "create_channel w name is_private =
     safe_api_call w ''conversations_create''
       [(''name'', ArgStr name),
        (''is_private'', ArgBool is_private)]"

text \<open>\<open>join_channel\<close>.\<close>

definition join_channel ::
  "world \<Rightarrow> string \<Rightarrow> outbound list \<times> (pyexc + SlackResponse)" where
  "join_channel w channel =
     safe_api_call w ''conversations_join''
       [(''channel'', ArgStr channel)]"

text \<open>\<open>leave_channel\<close>.\<close>

definition leave_channel ::
  "world \<Rightarrow> string \<Rightarrow> outbound list \<times> (pyexc + SlackResponse)" where
  "leave_channel w channel =
     safe_api_call w ''conversations_leave''
       [(''channel'', ArgStr channel)]"

text \<open>\<open>invite_to_channel\<close>.\<close>

definition invite_to_channel ::
  "world \<Rightarrow> string \<Rightarrow> str_or_list \<Rightarrow>
   outbound list \<times> (pyexc + SlackResponse)" where
  "invite_to_channel w channel users =
     safe_api_call w ''conversations_invite''
       [(''channel'', ArgStr channel),
        (''users'', ArgStr (comma_joined users))]"

text \<open>\<open>kick_from_channel\<close>.\<close>

definition kick_from_channel ::
  "world \<Rightarrow> string \<Rightarrow> string \<Rightarrow>
   outbound list \<times> (pyexc + SlackResponse)" where
  "kick_from_channel w channel user =
     safe_api_call w ''conversations_kick''
       [(''channel'', ArgStr channel),
        (''user'', ArgStr user)]"

text \<open>\<open>set_channel_topic\<close>.\<close>

definition set_channel_topic ::
  "world \<Rightarrow> string \<Rightarrow> string \<Rightarrow>
   outbound list \<times> (pyexc + SlackResponse)" where
  "set_channel_topic w channel topic =
     safe_api_call w ''conversations_setTopic''
       [(''channel'', ArgStr channel),
        (''topic'', ArgStr topic)]"

text \<open>\<open>set_channel_purpose\<close>.\<close>

definition set_channel_purpose ::
  "world \<Rightarrow> string \<Rightarrow> string \<Rightarrow>
   outbound list \<times> (pyexc + SlackResponse)" where
  "set_channel_purpose w channel purpose =
     safe_api_call w ''conversations_setPurpose''
       [(''channel'', ArgStr channel),
        (''purpose'', ArgStr purpose)]"

text \<open>\<open>archive_channel\<close>.\<close>

definition archive_channel ::
  "world \<Rightarrow> string \<Rightarrow> outbound list \<times> (pyexc + SlackResponse)" where
  "archive_channel w channel =
     safe_api_call w ''conversations_archive''
       [(''channel'', ArgStr channel)]"

text \<open>\<open>unarchive_channel\<close>.\<close>

definition unarchive_channel ::
  "world \<Rightarrow> string \<Rightarrow> outbound list \<times> (pyexc + SlackResponse)" where
  "unarchive_channel w channel =
     safe_api_call w ''conversations_unarchive''
       [(''channel'', ArgStr channel)]"

subsection \<open>Channel history\<close>

text \<open>\<open>get_channel_history\<close>.\<close>

definition get_channel_history ::
  "world \<Rightarrow> string \<Rightarrow> int \<Rightarrow> string option \<Rightarrow>
   string option \<Rightarrow> string option \<Rightarrow>
   outbound list \<times> (pyexc + SlackResponse)" where
  "get_channel_history w channel limit cursor latest oldest =
     (let kw = [(''channel'', ArgStr channel),
               (''limit'', ArgInt limit)];
          kw = put_str ''cursor'' cursor kw;
          kw = put_str ''latest'' latest kw;
          kw = put_str ''oldest'' oldest kw
      in safe_api_call w ''conversations_history'' kw)"

text \<open>\<open>get_thread_replies\<close>.\<close>

definition get_thread_replies ::
  "world \<Rightarrow> string \<Rightarrow> string \<Rightarrow> int \<Rightarrow>
   string option \<Rightarrow> outbound list \<times> (pyexc + SlackResponse)" where
  "get_thread_replies w channel ts limit cursor =
     (let kw = [(''channel'', ArgStr channel),
               (''ts'', ArgStr ts),
               (''limit'', ArgInt limit)];
          kw = put_str ''cursor'' cursor kw
      in safe_api_call w ''conversations_replies'' kw)"

subsection \<open>Users\<close>

text \<open>\<open>list_users\<close>.\<close>

definition list_users ::
  "world \<Rightarrow> int \<Rightarrow> string option \<Rightarrow>
   outbound list \<times> (pyexc + SlackResponse)" where
  "list_users w limit cursor =
     (let kw = [(''limit'', ArgInt limit)];
          kw = put_str ''cursor'' cursor kw
      in safe_api_call w ''users_list'' kw)"

text \<open>\<open>get_user_info\<close>.\<close>

definition get_user_info ::
  "world \<Rightarrow> string \<Rightarrow> outbound list \<times> (pyexc + SlackResponse)" where
  "get_user_info w user =
     safe_api_call w ''users_info''
       [(''user'', ArgStr user)]"

text \<open>\<open>get_user_profile\<close>.\<close>

definition get_user_profile ::
  "world \<Rightarrow> string \<Rightarrow> outbound list \<times> (pyexc + SlackResponse)" where
  "get_user_profile w user =
     safe_api_call w ''users_profile_get''
       [(''user'', ArgStr user)]"

text \<open>\<open>set_user_presence\<close>.\<close>

definition set_user_presence ::
  "world \<Rightarrow> string \<Rightarrow> outbound list \<times> (pyexc + SlackResponse)" where
  "set_user_presence w presence =
     safe_api_call w ''users_setPresence''
       [(''presence'', ArgStr presence)]"

subsection \<open>Files other than upload\<close>

text \<open>\<open>list_files\<close>.\<close>

definition list_files ::
  "world \<Rightarrow> string option \<Rightarrow> string option \<Rightarrow>
   string option \<Rightarrow> string option \<Rightarrow> string option \<Rightarrow>
   int \<Rightarrow> int \<Rightarrow> outbound list \<times> (pyexc + SlackResponse)" where
  "list_files w user channel ts_from ts_to types count page =
     (let kw = [(''count'', ArgInt count),
               (''page'', ArgInt page)];
          kw = put_str ''user'' user kw;
          kw = put_str ''channel'' channel kw;
          kw = put_str ''ts_from'' ts_from kw;
          kw = put_str ''ts_to'' ts_to kw;
          kw = put_str ''types'' types kw
      in safe_api_call w ''files_list'' kw)"

text \<open>\<open>get_file_info\<close>.\<close>

definition get_file_info ::
  "world \<Rightarrow> string \<Rightarrow> outbound list \<times> (pyexc + SlackResponse)" where
  "get_file_info w file =
     safe_api_call w ''files_info''
       [(''file'', ArgStr file)]"

text \<open>\<open>delete_file\<close>.\<close>

definition delete_file ::
  "world \<Rightarrow> string \<Rightarrow> outbound list \<times> (pyexc + SlackResponse)" where
  "delete_file w file =
     safe_api_call w ''files_delete''
       [(''file'', ArgStr file)]"

subsection \<open>Reactions and pins\<close>

text \<open>\<open>add_reaction\<close>.\<close>

definition add_reaction ::
  "world \<Rightarrow> string \<Rightarrow> string \<Rightarrow> string \<Rightarrow>
   outbound list \<times> (pyexc + SlackResponse)" where
  "add_reaction w name channel timestamp =
     safe_api_call w ''reactions_add''
       [(''name'', ArgStr name),
        (''channel'', ArgStr channel),
        (''timestamp'', ArgStr timestamp)]"

text \<open>\<open>remove_reaction\<close>.\<close>

definition remove_reaction ::
  "world \<Rightarrow> string \<Rightarrow> string \<Rightarrow> string \<Rightarrow>
   outbound list \<times> (pyexc + SlackResponse)" where
  "remove_reaction w name channel timestamp =
     safe_api_call w ''reactions_remove''
       [(''name'', ArgStr name),
        (''channel'', ArgStr channel),
        (''timestamp'', ArgStr timestamp)]"

text \<open>\<open>get_reactions\<close>.\<close>

definition get_reactions ::
  "world \<Rightarrow> string \<Rightarrow> string \<Rightarrow>
   outbound list \<times> (pyexc + SlackResponse)" where
  "get_reactions w channel timestamp =
     safe_api_call w ''reactions_get''
       [(''channel'', ArgStr channel),
        (''timestamp'', ArgStr timestamp)]"

text \<open>\<open>pin_message\<close>.\<close>

definition pin_message ::
  "world \<Rightarrow> string \<Rightarrow> string \<Rightarrow>
   outbound list \<times> (pyexc + SlackResponse)" where
  "pin_message w channel timestamp =
     safe_api_call w ''pins_add''
       [(''channel'', ArgStr channel),
        (''timestamp'', ArgStr timestamp)]"

text \<open>\<open>unpin_message\<close>.\<close>

definition unpin_message ::
  "world \<Rightarrow> string \<Rightarrow> string \<Rightarrow>
   outbound list \<times> (pyexc + SlackResponse)" where
  "unpin_message w channel timestamp =
     safe_api_call w ''pins_remove''
       [(''channel'', ArgStr channel),
        (''timestamp'', ArgStr timestamp)]"

text \<open>\<open>list_pins\<close>.\<close>

definition list_pins ::
  "world \<Rightarrow> string \<Rightarrow> outbound list \<times> (pyexc + SlackResponse)" where
  "list_pins w channel =
     safe_api_call w ''pins_list''
       [(''channel'', ArgStr channel)]"

subsection \<open>Bookmarks and user groups\<close>

text \<open>\<open>add_bookmark\<close>.\<close>

definition add_bookmark ::
  "world \<Rightarrow> string \<Rightarrow> string \<Rightarrow> string \<Rightarrow>
   string option \<Rightarrow> string option \<Rightarrow>
   outbound list \<times> (pyexc + SlackResponse)" where
  "add_bookmark w channel_id title type link emoji =
     (let kw = [(''channel_id'', ArgStr channel_id),
               (''title'', ArgStr title),
               (''type'', ArgStr type)];
          kw = put_str ''link'' link kw;
          kw = put_str ''emoji'' emoji kw
      in safe_api_call w ''bookmarks_add'' kw)"

text \<open>\<open>remove_bookmark\<close>.\<close>

definition remove_bookmark ::
  "world \<Rightarrow> string \<Rightarrow> string \<Rightarrow>
   outbound list \<times> (pyexc + SlackResponse)" where
  "remove_bookmark w channel_id bookmark_id =
     safe_api_call w ''bookmarks_remove''
       [(''channel_id'', ArgStr channel_id),
        (''bookmark_id'', ArgStr bookmark_id)]"

text \<open>\<open>list_bookmarks\<close>.\<close>

definition list_bookmarks ::
  "world \<Rightarrow> string \<Rightarrow> outbound list \<times> (pyexc + SlackResponse)" where
  "list_bookmarks w channel_id =
     safe_api_call w ''bookmarks_list''
       [(''channel_id'', ArgStr channel_id)]"

text \<open>\<open>create_usergroup\<close>.\<close>

definition create_usergroup ::
  "world \<Rightarrow> string \<Rightarrow> string option \<Rightarrow>
   string option \<Rightarrow> string list option \<Rightarrow>
   outbound list \<times> (pyexc + SlackResponse)" where
  "create_usergroup w name handle description channels =
     (let kw = [(''name'', ArgStr name)];
          kw = put_str ''handle'' handle kw;
          kw = put_str ''description'' description kw;
          kw = put_joined ''channels'' channels kw
      in safe_api_call w ''usergroups_create'' kw)"

text \<open>\<open>list_usergroups\<close>.\<close>

definition list_usergroups ::
  "world \<Rightarrow> bool \<Rightarrow> outbound list \<times> (pyexc + SlackResponse)" where
  "list_usergroups w include_disabled =
     safe_api_call w ''usergroups_list''
       [(''include_disabled'', ArgBool include_disabled)]"

text \<open>\<open>update_usergroup\<close>.\<close>

definition update_usergroup ::
  "world \<Rightarrow> string \<Rightarrow> string option \<Rightarrow>
   string option \<Rightarrow> string option \<Rightarrow>
   outbound list \<times> (pyexc + SlackResponse)" where
  "update_usergroup w usergroup name handle description =
     (let kw = [(''usergroup'', ArgStr usergroup)];
          kw = put_str ''name'' name kw;
          kw = put_str ''handle'' handle kw;
          kw = put_str ''description'' description kw
      in safe_api_call w ''usergroups_update'' kw)"

text \<open>\<open>disable_usergroup\<close>.\<close>

definition disable_usergroup ::
  "world \<Rightarrow> string \<Rightarrow> outbound list \<times> (pyexc + SlackResponse)" where
  "disable_usergroup w usergroup =
     safe_api_call w ''usergroups_disable''
       [(''usergroup'', ArgStr usergroup)]"

subsection \<open>Team, emoji, do-not-disturb\<close>

text \<open>\<open>get_team_info\<close>.\<close>

definition get_team_info ::
  "world \<Rightarrow> outbound list \<times> (pyexc + SlackResponse)" where
  "get_team_info w =
     safe_api_call w ''team_info''
       []"

text \<open>\<open>get_team_profile\<close>.\<close>

definition get_team_profile ::
  "world \<Rightarrow> outbound list \<times> (pyexc + SlackResponse)" where
  "get_team_profile w =
     safe_api_call w ''team_profile_get''
       []"

text \<open>\<open>list_emoji\<close>.\<close>

definition list_emoji ::
  "world \<Rightarrow> outbound list \<times> (pyexc + SlackResponse)" where
  "list_emoji w =
     safe_api_call w ''emoji_list''
       []"

text \<open>\<open>get_dnd_info\<close>.\<close>

definition get_dnd_info ::
  "world \<Rightarrow> string option \<Rightarrow>
   outbound list \<times> (pyexc + SlackResponse)" where
  "get_dnd_info w user =
     (let kw = [];
          kw = put_str ''user'' user kw
      in safe_api_call w ''dnd_info'' kw)"

text \<open>\<open>get_dnd_team_info\<close>.\<close>

definition get_dnd_team_info ::
  "world \<Rightarrow> string list option \<Rightarrow>
   outbound list \<times> (pyexc + SlackResponse)" where
  "get_dnd_team_info w users =
     (let kw = [];
          kw = put_joined ''users'' users kw
      in safe_api_call w ''dnd_teamInfo'' kw)"

section \<open>Upload resolver\<close>

text \<open>\<open>_is_url\<close>: the bare \<open>except\<close> turns every failure of the parse into \<open>False\<close>.\<close>

definition is_url :: "world \<Rightarrow> string \<Rightarrow> bool" where
  "is_url w p =
     (case urlparse w p of
        Inl _ \<Rightarrow> False
      | Inr result \<Rightarrow> scheme result \<noteq> [] \<and> netloc result \<noteq> [])"

text \<open>
  \<open>_is_file_path\<close>: \<open>os.path.isfile(path) or Path(path).exists()\<close>. The second test is
  made only when the first is false, and an \<open>OSError\<close> it raises is not caught.
\<close>

definition is_file_path :: "world \<Rightarrow> string \<Rightarrow> pyexc + bool" where
  "is_file_path w p =
     (if os_path_isfile w p then Inr True
      else (case path_exists w p of
              Inl msg \<Rightarrow> Inl (OSError msg)
            | Inr present \<Rightarrow> Inr present))"

text \<open>\<open>os.path.basename\<close> on a POSIX system: what follows the last slash.\<close>

definition basename :: "string \<Rightarrow> string" where
  "basename p = rev (takeWhile (\<lambda>c. c \<noteq> CHR ''/'') (rev p))"

definition failed :: "string \<Rightarrow> SlackResponse" where
  "failed msg = \<lparr>ok = False, data = empty_payload, error = Some msg, warning = None\<rparr>"

text \<open>
  The filename of a URL upload (the block under \<open>if not filename\<close> in
  \<open>_upload_from_url\<close>, with the explicit filename passed through). \<open>Inl\<close> is the
  message of an exception raised by the second \<open>urlparse\<close>.
\<close>

definition url_filename :: "world \<Rightarrow> string \<Rightarrow> string option \<Rightarrow> string option \<Rightarrow> string + string" where
  "url_filename w file_url filename content_type_header =
     (case supplied filename of
        Some given \<Rightarrow> Inr given
      | None \<Rightarrow>
          (case urlparse w file_url of
             Inl s \<Rightarrow> Inl s
           | Inr parsed_url \<Rightarrow>
               (let filename = basename (path parsed_url) in
                if filename = [] \<or> CHR ''.'' \<notin> set filename then
                  (let content_type =
                         (case content_type_header of None \<Rightarrow> [] | Some v \<Rightarrow> v) in
                   if sublist ''pdf'' content_type then Inr ''downloaded_file.pdf''
                   else if sublist ''image'' content_type then Inr ''downloaded_image.jpg''
                   else Inr ''downloaded_file'')
                else Inr filename)))"

text \<open>The keyword arguments common to the three upload variants, after the file entry.\<close>

definition upload_kwargs ::
  "string \<Rightarrow> arg \<Rightarrow> string \<Rightarrow> string option \<Rightarrow> string \<Rightarrow> string option \<Rightarrow> string option \<Rightarrow> kwargs" where
  "upload_kwargs channels file filename title default_title initial_comment thread_ts =
     (let kw = [(''channel'', ArgStr channels), (''file'', file), (''filename'', ArgStr filename)];
          kw = (case supplied title of
                  Some t \<Rightarrow> kw @ [(''title'', ArgStr t)]
                | None \<Rightarrow> kw @ [(''title'', ArgStr default_title)]);
          kw = put_str ''initial_comment'' initial_comment kw;
          kw = put_str ''thread_ts'' thread_ts kw
      in kw)"

text \<open>
  An exception of class \<open>Exception\<close> that leaves \<open>_safe_api_call\<close> inside one of the upload
  variants is caught by that variant's \<open>except Exception\<close>; \<open>CancelledError\<close> is not.
\<close>

definition caught :: "string \<Rightarrow> outbound list \<times> (pyexc + SlackResponse) \<Rightarrow>
    outbound list \<times> (pyexc + SlackResponse)" where
  "caught msg res =
     (case res of
        (tr, Inl e) \<Rightarrow>
          if is_exception e then (tr, Inr (failed (msg @ exc_str e))) else (tr, Inl e)
      | (tr, Inr r) \<Rightarrow> (tr, Inr r))"

definition upload_from_url ::
  "world \<Rightarrow> string \<Rightarrow> string \<Rightarrow> string option \<Rightarrow> string option \<Rightarrow> string option \<Rightarrow>
   string option \<Rightarrow> outbound list \<times> (pyexc + SlackResponse)" where
  "upload_from_url w channels file_url filename title initial_comment thread_ts =
     (case http_get w file_url of
        RaisedHTTPError s \<Rightarrow>
          ([HttpGet file_url], Inr (failed (''Failed to download file from URL: '' @ s)))
      | RaisedOther s \<Rightarrow>
          ([HttpGet file_url], Inr (failed (''Upload failed: '' @ s)))
      | FetchCancelled s \<Rightarrow>
          ([HttpGet file_url], Inl (CancelledError s))
      | HttpResponse content_type_header content \<Rightarrow>
          (case url_filename w file_url filename content_type_header of
             Inl s \<Rightarrow> ([HttpGet file_url], Inr (failed (''Upload failed: '' @ s)))
           | Inr filename \<Rightarrow>
               (case caught ''Upload failed: ''
                       (safe_api_call w ''files_upload_v2''
                          (upload_kwargs channels (ArgBytes content) filename title
                             (''File from '' @ file_url) initial_comment thread_ts)) of
                  (tr, r) \<Rightarrow> (HttpGet file_url # tr, r))))"

definition upload_from_path ::
  "world \<Rightarrow> string \<Rightarrow> string \<Rightarrow> string option \<Rightarrow> string option \<Rightarrow> string option \<Rightarrow>
   string option \<Rightarrow> outbound list \<times> (pyexc + SlackResponse)" where
  "upload_from_path w channels file_path filename title initial_comment thread_ts =
     (let filename = (case supplied filename of
                        Some given \<Rightarrow> given
                      | None \<Rightarrow> basename file_path)
      in caught ''Failed to upload file from path: ''
           (safe_api_call w ''files_upload_v2''
              (upload_kwargs channels (ArgStr file_path) filename title
                 (''File: '' @ filename) initial_comment thread_ts)))"

definition upload_content ::
  "world \<Rightarrow> string \<Rightarrow> string \<Rightarrow> string \<Rightarrow> string option \<Rightarrow> string option \<Rightarrow>
   string option \<Rightarrow> outbound list \<times> (pyexc + SlackResponse)" where
  "upload_content w channels content filename title initial_comment thread_ts =
     caught ''Failed to upload content: ''
       (safe_api_call w ''files_upload_v2''
          (upload_kwargs channels (ArgBytes content) filename title
             (''Text file: '' @ filename) initial_comment thread_ts))"

text \<open>
  \<open>upload_file\<close>: the three-way dispatch. The path test is evaluated only when the URL
  test is false, and an exception it raises leaves \<open>upload_file\<close> before any branch.
\<close>

definition upload_file ::
  "world \<Rightarrow> str_or_list \<Rightarrow> string \<Rightarrow> string option \<Rightarrow> string option \<Rightarrow> string option \<Rightarrow>
   string option \<Rightarrow> outbound list \<times> (pyexc + SlackResponse)" where
  "upload_file w channels file_source filename title initial_comment thread_ts =
     (let channels = comma_joined channels
      in if is_url w file_source then
           upload_from_url w channels file_source filename title initial_comment thread_ts
         else
           (case is_file_path w file_source of
              Inl e \<Rightarrow> ([], Inl e)
            | Inr True \<Rightarrow>
                upload_from_path w channels file_source filename title initial_comment
                  thread_ts
            | Inr False \<Rightarrow>
                (case supplied filename of
                   None \<Rightarrow>
                     ([], Inr (failed ''filename is required when uploading text content''))
                 | Some given \<Rightarrow>
                     upload_content w channels file_source given title initial_comment
                       thread_ts)))"

section \<open>Tool facade: \<open>tools/tools.py\<close>\<close>

text \<open>\<open>d.get(key, default)\<close> on a dictionary.\<close>

definition dict_get :: "(string \<times> json) list \<Rightarrow> string \<Rightarrow> json \<Rightarrow> json" where
  "dict_get kvs key dflt = (case map_of kvs key of None \<Rightarrow> dflt | Some v \<Rightarrow> v)"

definition type_name :: "json \<Rightarrow> string" where
  "type_name v =
     (case v of JNull \<Rightarrow> ''NoneType'' | JBool _ \<Rightarrow> ''bool'' | JInt _ \<Rightarrow> ''int''
      | JStr _ \<Rightarrow> ''str'' | JList _ \<Rightarrow> ''list'' | JObj _ \<Rightarrow> ''dict'')"

text \<open>\<open>v.get(key, default)\<close> on any value: only a dictionary has the method.\<close>

definition attr_get :: "json \<Rightarrow> string \<Rightarrow> json \<Rightarrow> pyexc + json" where
  "attr_get v key dflt =
     (case v of
        JObj kvs \<Rightarrow> Inr (dict_get kvs key dflt)
      | _ \<Rightarrow> Inl (AttributeError
                 (sq @ type_name v @ sq @ '' object has no attribute '' @ sq @ ''get'' @ sq)))"

text \<open>\<open>v.get(key1, {}).get(key2, default)\<close>.\<close>

definition attr_get2 :: "json \<Rightarrow> string \<Rightarrow> string \<Rightarrow> json \<Rightarrow> pyexc + json" where
  "attr_get2 v key1 key2 dflt =
     (case attr_get v key1 (JObj []) of
        Inl e \<Rightarrow> Inl e
      | Inr inner \<Rightarrow> attr_get inner key2 dflt)"

text \<open>
  What a \<open>for\<close> iterates over: the elements of a list, the characters of a string, the
  keys of a dictionary; anything else is not iterable.
\<close>

definition py_iter :: "json \<Rightarrow> pyexc + json list" where
  "py_iter v =
     (case v of
        JList xs \<Rightarrow> Inr xs
      | JStr s \<Rightarrow> Inr (map (\<lambda>c. JStr [c]) s)
      | JObj kvs \<Rightarrow> Inr (map (\<lambda>kv. JStr (fst kv)) kvs)
      | _ \<Rightarrow> Inl (TypeError (sq @ type_name v @ sq @ '' object is not iterable'')))"

text \<open>\<open>v.items()\<close>: only a dictionary has the method.\<close>

definition py_items :: "json \<Rightarrow> pyexc + (string \<times> json) list" where
  "py_items v =
     (case v of
        JObj kvs \<Rightarrow> Inr kvs
      | _ \<Rightarrow> Inl (AttributeError
                 (sq @ type_name v @ sq @ '' object has no attribute '' @ sq @ ''items'' @ sq)))"

text \<open>
  \<open>key in v\<close> for a string key: a key of a dictionary, a substring of a string, an
  element of a list; the other values are not containers.
\<close>

definition py_in :: "string \<Rightarrow> json \<Rightarrow> pyexc + bool" where
  "py_in key v =
     (case v of
        JObj kvs \<Rightarrow> Inr (key \<in> set (map fst kvs))
      | JStr s \<Rightarrow> Inr (sublist key s)
      | JList xs \<Rightarrow> Inr (JStr key \<in> set xs)
      | _ \<Rightarrow> Inl (TypeError
                 (''argument of type '' @ sq @ type_name v @ sq @ '' is not iterable'')))"

text \<open>\<open>v[key]\<close> for a string key.\<close>

definition py_subscript :: "json \<Rightarrow> string \<Rightarrow> pyexc + json" where
  "py_subscript v key =
     (case v of
        JObj kvs \<Rightarrow>
          (case map_of kvs key of None \<Rightarrow> Inl (KeyError (sq @ key @ sq)) | Some x \<Rightarrow> Inr x)
      | JStr s \<Rightarrow>
          Inl (TypeError (''string indices must be integers, not '' @ sq @ ''str'' @ sq))
      | JList xs \<Rightarrow> Inl (TypeError ''list indices must be integers or slices, not str'')
      | _ \<Rightarrow> Inl (TypeError (sq @ type_name v @ sq @ '' object is not subscriptable'')))"

text \<open>A dictionary display: the values are evaluated in order, the first exception wins.\<close>

fun build_entries :: "(string \<times> (pyexc + json)) list \<Rightarrow> pyexc + (string \<times> json) list" where
  "build_entries [] = Inr []"
| "build_entries ((k, v) # rest) =
     (case v of
        Inl e \<Rightarrow> Inl e
      | Inr x \<Rightarrow>
          (case build_entries rest of
             Inl e \<Rightarrow> Inl e
           | Inr kvs \<Rightarrow> Inr ((k, x) # kvs)))"

definition build_dict :: "(string \<times> (pyexc + json)) list \<Rightarrow> pyexc + json" where
  "build_dict items = (case build_entries items of Inl e \<Rightarrow> Inl e | Inr kvs \<Rightarrow> Inr (JObj kvs))"

text \<open>
  \<open>[entry(x) for x in xs if keep(x)]\<close>: for each element the condition is evaluated
  first, then the entry; the first exception ends the comprehension.
\<close>

fun comprehension ::
  "(json \<Rightarrow> pyexc + bool) \<Rightarrow> (json \<Rightarrow> pyexc + json) \<Rightarrow> json list \<Rightarrow> pyexc + json list" where
  "comprehension keep entry [] = Inr []"
| "comprehension keep entry (x # xs) =
     (case keep x of
        Inl e \<Rightarrow> Inl e
      | Inr False \<Rightarrow> comprehension keep entry xs
      | Inr True \<Rightarrow>
          (case entry x of
             Inl e \<Rightarrow> Inl e
           | Inr y \<Rightarrow>
               (case comprehension keep entry xs of
                  Inl e \<Rightarrow> Inl e
                | Inr ys \<Rightarrow> Inr (y # ys))))"

text \<open>\<open>f"{result.error}"\<close>: the string itself, or \<open>None\<close> printed.\<close>

definition format_error :: "string option \<Rightarrow> string" where
  "format_error e = (case e of None \<Rightarrow> ''None'' | Some s \<Rightarrow> s)"

text \<open>
  The shape shared by every facade operation after the adapter call: an exception of the
  adapter call propagates; on \<open>result.ok\<close> the payload is reshaped; otherwise
  \<open>raise ValueError(f"<context>: {result.error}")\<close>, with the operation's own context.
\<close>

definition on_result ::
  "string \<Rightarrow> (payload \<Rightarrow> pyexc + json) \<Rightarrow> outbound list \<times> (pyexc + SlackResponse) \<Rightarrow>
   outbound list \<times> (pyexc + json)" where
  "on_result ctx reshape res =
     (case res of
        (tr, Inl e) \<Rightarrow> (tr, Inl e)
      | (tr, Inr result) \<Rightarrow>
          (tr, if ok result then reshape (data result)
               else Inl (ValueError (ctx @ '': '' @ format_error (error result)))))"

text \<open>A parameter with a default value: \<open>None\<close> is the caller leaving it out.\<close>

definition or_default :: "'a \<Rightarrow> 'a option \<Rightarrow> 'a" where
  "or_default d v = (case v of None \<Rightarrow> d | Some x \<Rightarrow> x)"

subsection \<open>Reshaping the items of listings\<close>

definition channel_entry :: "json \<Rightarrow> pyexc + json" where
  "channel_entry ch =
     build_dict
       [(''id'', attr_get ch ''id'' JNull),
        (''name'', attr_get ch ''name'' JNull),
        (''is_private'', attr_get ch ''is_private'' (JBool False)),
        (''is_member'', attr_get ch ''is_member'' (JBool False)),
        (''topic'', attr_get2 ch ''topic'' ''value'' (JStr [])),
        (''purpose'', attr_get2 ch ''purpose'' ''value'' (JStr [])),
        (''member_count'', attr_get ch ''num_members'' (JInt 0)),
        (''created'', attr_get ch ''created'' JNull),
        (''is_archived'', attr_get ch ''is_archived'' (JBool False))]"

definition user_entry :: "json \<Rightarrow> pyexc + json" where
  "user_entry user =
     build_dict
       [(''id'', attr_get user ''id'' JNull),
        (''name'', attr_get user ''name'' JNull),
        (''real_name'', attr_get user ''real_name'' (JStr [])),
        (''display_name'', attr_get2 user ''profile'' ''display_name'' (JStr [])),
        (''email'', attr_get2 user ''profile'' ''email'' (JStr [])),
        (''is_bot'', attr_get user ''is_bot'' (JBool False)),
        (''is_admin'', attr_get user ''is_admin'' (JBool False)),
        (''status_text'', attr_get2 user ''profile'' ''status_text'' (JStr [])),
        (''status_emoji'', attr_get2 user ''profile'' ''status_emoji'' (JStr [])),
        (''timezone'', attr_get user ''tz'' (JStr []))]"

definition not_deleted :: "json \<Rightarrow> pyexc + bool" where
  "not_deleted user =
     (case attr_get user ''deleted'' (JBool False) of
        Inl e \<Rightarrow> Inl e
      | Inr flag \<Rightarrow> Inr (\<not> truthy flag))"

definition file_entry :: "json \<Rightarrow> pyexc + json" where
  "file_entry file =
     build_dict
       [(''id'', attr_get file ''id'' JNull),
        (''name'', attr_get file ''name'' JNull),
        (''title'', attr_get file ''title'' (JStr [])),
        (''size'', attr_get file ''size'' JNull),
        (''type'', attr_get file ''filetype'' (JStr [])),
        (''user'', attr_get file ''user'' JNull),
        (''created'', attr_get file ''created'' JNull),
        (''url'', attr_get file ''url_private'' JNull),
        (''mimetype'', attr_get file ''mimetype'' (JStr []))]"

definition history_entry :: "json \<Rightarrow> pyexc + json" where
  "history_entry msg =
     build_dict
       [(''timestamp'', attr_get msg ''ts'' JNull),
        (''user'', attr_get msg ''user'' JNull),
        (''text'', attr_get msg ''text'' (JStr [])),
        (''type'', attr_get msg ''type'' JNull),
        (''thread_ts'', attr_get msg ''thread_ts'' JNull),
        (''reply_count'', attr_get msg ''reply_count'' (JInt 0)),
        (''reactions'', attr_get msg ''reactions'' (JList [])),
        (''attachments'', attr_get msg ''attachments'' (JList [])),
        (''blocks'', attr_get msg ''blocks'' (JList []))]"

definition reply_entry :: "json \<Rightarrow> pyexc + json" where
  "reply_entry msg =
     build_dict
       [(''timestamp'', attr_get msg ''ts'' JNull),
        (''user'', attr_get msg ''user'' JNull),
        (''text'', attr_get msg ''text'' (JStr [])),
        (''type'', attr_get msg ''type'' JNull),
        (''thread_ts'', attr_get msg ''thread_ts'' JNull),
        (''reactions'', attr_get msg ''reactions'' (JList [])),
        (''attachments'', attr_get msg ''attachments'' (JList [])),
        (''blocks'', attr_get msg ''blocks'' (JList []))]"

definition bookmark_entry :: "json \<Rightarrow> pyexc + json" where
  "bookmark_entry bookmark =
     build_dict
       [(''id'', attr_get bookmark ''id'' JNull),
        (''title'', attr_get bookmark ''title'' JNull),
        (''type'', attr_get bookmark ''type'' JNull),
        (''link'', attr_get bookmark ''link'' (JStr [])),
        (''emoji'', attr_get bookmark ''emoji'' (JStr [])),
        (''created_by'', attr_get bookmark ''created_by'' JNull),
        (''date_created'', attr_get bookmark ''date_created'' JNull)]"

definition usergroup_entry :: "json \<Rightarrow> pyexc + json" where
  "usergroup_entry ug =
     build_dict
       [(''id'', attr_get ug ''id'' JNull),
        (''name'', attr_get ug ''name'' JNull),
        (''handle'', attr_get ug ''handle'' JNull),
        (''description'', attr_get ug ''description'' (JStr [])),
        (''is_external'', attr_get ug ''is_external'' (JBool False)),
        (''user_count'', attr_get ug ''user_count'' (JInt 0)),
        (''date_create'', attr_get ug ''date_create'' JNull),
        (''date_update'', attr_get ug ''date_update'' JNull)]"

text \<open>
  The loop of \<open>list_slack_pins\<close>: an item with a \<open>message\<close> gives a message pin, otherwise
  an item with a \<open>file\<close> gives a file pin, otherwise nothing is appended.
\<close>

definition pin_entry :: "json \<Rightarrow> pyexc + json option" where
  "pin_entry item =
     (case py_in ''message'' item of
        Inl e \<Rightarrow> Inl e
      | Inr True \<Rightarrow>
          (case py_subscript item ''message'' of
             Inl e \<Rightarrow> Inl e
           | Inr msg \<Rightarrow>
               (case build_dict
                       [(''type'', Inr (JStr ''message'')),
                        (''timestamp'', attr_get msg ''ts'' JNull),
                        (''user'', attr_get msg ''user'' JNull),
                        (''text'', attr_get msg ''text'' (JStr [])),
                        (''pinned_by'', attr_get item ''created_by'' JNull),
                        (''pinned_at'', attr_get item ''created'' JNull)] of
                  Inl e \<Rightarrow> Inl e
                | Inr pin \<Rightarrow> Inr (Some pin)))
      | Inr False \<Rightarrow>
          (case py_in ''file'' item of
             Inl e \<Rightarrow> Inl e
           | Inr True \<Rightarrow>
               (case py_subscript item ''file'' of
                  Inl e \<Rightarrow> Inl e
                | Inr file \<Rightarrow>
                    (case build_dict
                            [(''type'', Inr (JStr ''file'')),
                             (''file_id'', attr_get file ''id'' JNull),
                             (''filename'', attr_get file ''name'' JNull),
                             (''title'', attr_get file ''title'' (JStr [])),
                             (''pinned_by'', attr_get item ''created_by'' JNull),
                             (''pinned_at'', attr_get item ''created'' JNull)] of
                       Inl e \<Rightarrow> Inl e
                     | Inr pin \<Rightarrow> Inr (Some pin)))
           | Inr False \<Rightarrow> Inr None))"

fun pins_loop :: "json list \<Rightarrow> pyexc + json list" where
  "pins_loop [] = Inr []"
| "pins_loop (item # items) =
     (case pin_entry item of
        Inl e \<Rightarrow> Inl e
      | Inr appended \<Rightarrow>
          (case pins_loop items of
             Inl e \<Rightarrow> Inl e
           | Inr pins \<Rightarrow> Inr ((case appended of None \<Rightarrow> [] | Some pin \<Rightarrow> [pin]) @ pins)))"

subsection \<open>Authentication\<close>

text \<open>\<open>test_slack_auth\<close>.\<close>

definition test_slack_auth ::
  "world \<Rightarrow> outbound list \<times> (pyexc + json)" where
  "test_slack_auth w =
     on_result ''Authentication failed''
       (\<lambda>d. Inr (JObj [(''authenticated'', JBool True),
                  (''bot_user'', dict_get (entries d) ''user'' (JStr ''Unknown'')),
                  (''team'', dict_get (entries d) ''team'' (JStr ''Unknown'')),
                  (''user_id'', dict_get (entries d) ''user_id'' JNull),
                  (''team_id'', dict_get (entries d) ''team_id'' JNull)]))
       (test_auth w)"

subsection \<open>Messaging\<close>

text \<open>\<open>send_slack_message\<close>.\<close>

definition send_slack_message ::
  "world \<Rightarrow> string \<Rightarrow> string option \<Rightarrow>
   json list option \<Rightarrow> json list option \<Rightarrow> string option \<Rightarrow>
   string option \<Rightarrow> string option \<Rightarrow> string option \<Rightarrow>
   outbound list \<times> (pyexc + json)" where
  "send_slack_message w channel text blocks attachments thread_ts username icon_emoji icon_url =
     (if \<not> truthy_str text \<and> \<not> truthy_list blocks then
        ([], Inl (ValueError ''Either text or blocks must be provided''))
      else
        on_result ''Failed to send message''
          (\<lambda>d. Inr (JObj [(''success'', JBool True),
                     (''channel'', dict_get (entries d) ''channel'' JNull),
                     (''timestamp'', dict_get (entries d) ''ts'' JNull),
                     (''message'', JStr ''Message sent successfully'')]))
          (send_message w channel text blocks attachments thread_ts username icon_emoji icon_url))"

text \<open>\<open>update_slack_message\<close>.\<close>

definition update_slack_message ::
  "world \<Rightarrow> string \<Rightarrow> string \<Rightarrow> string option \<Rightarrow>
   json list option \<Rightarrow> json list option \<Rightarrow>
   outbound list \<times> (pyexc + json)" where
  "update_slack_message w channel message_ts text blocks attachments =
     on_result ''Failed to update message''
       (\<lambda>d. Inr (JObj [(''success'', JBool True),
                  (''channel'', dict_get (entries d) ''channel'' JNull),
                  (''timestamp'', dict_get (entries d) ''ts'' JNull),
                  (''message'', JStr ''Message updated successfully'')]))
       (update_message w channel message_ts text blocks attachments)"

text \<open>\<open>delete_slack_message\<close>.\<close>

definition delete_slack_message ::
  "world \<Rightarrow> string \<Rightarrow> string \<Rightarrow>
   outbound list \<times> (pyexc + json)" where
  "delete_slack_message w channel message_ts =
     on_result ''Failed to delete message''
       (\<lambda>d. Inr (JObj [(''success'', JBool True),
                  (''message'', JStr ''Message deleted successfully'')]))
       (delete_message w channel message_ts)"

text \<open>\<open>schedule_slack_message\<close>.\<close>

definition schedule_slack_message ::
  "world \<Rightarrow> string \<Rightarrow> int \<Rightarrow> string option \<Rightarrow>
   json list option \<Rightarrow> json list option \<Rightarrow>
   outbound list \<times> (pyexc + json)" where
  "schedule_slack_message w channel post_at text blocks attachments =
     on_result ''Failed to schedule message''
       (\<lambda>d. Inr (JObj [(''success'', JBool True),
                  (''scheduled_message_id'', dict_get (entries d) ''scheduled_message_id'' JNull),
                  (''channel'', dict_get (entries d) ''channel'' JNull),
                  (''post_at'', dict_get (entries d) ''post_at'' JNull),
                  (''message'', JStr ''Message scheduled successfully'')]))
       (schedule_message w channel post_at text blocks attachments)"

subsection \<open>Channels\<close>

text \<open>\<open>list_slack_channels\<close>.\<close>

definition list_slack_channels ::
  "world \<Rightarrow> int option \<Rightarrow> bool option \<Rightarrow>
   string option \<Rightarrow> string option \<Rightarrow>
   outbound list \<times> (pyexc + json)" where
  "list_slack_channels w limit exclude_archived types cursor =
     on_result ''Failed to list channels''
       (\<lambda>d. case py_iter (dict_get (entries d) ''channels'' (JList [])) of
            Inl e \<Rightarrow> Inl e
          | Inr channels \<Rightarrow>
              (case comprehension (\<lambda>ch. Inr True) channel_entry channels of
                 Inl e \<Rightarrow> Inl e
               | Inr out \<Rightarrow> Inr (JList out)))
       (list_channels w (or_default True exclude_archived) (or_default 100 limit) cursor (or_default ''public_channel,private_channel'' types))"

text \<open>\<open>get_slack_channel_info\<close>.\<close>

definition get_slack_channel_info ::
  "world \<Rightarrow> string \<Rightarrow> outbound list \<times> (pyexc + json)" where
  "get_slack_channel_info w channel =
     on_result ''Failed to get channel info''
       (\<lambda>d. let ch = dict_get (entries d) ''channel'' (JObj []) in
       build_dict
         [(''id'', attr_get ch ''id'' JNull),
          (''name'', attr_get ch ''name'' JNull),
          (''is_private'', attr_get ch ''is_private'' (JBool False)),
          (''is_member'', attr_get ch ''is_member'' (JBool False)),
          (''topic'', attr_get2 ch ''topic'' ''value'' (JStr [])),
          (''purpose'', attr_get2 ch ''purpose'' ''value'' (JStr [])),
          (''member_count'', attr_get ch ''num_members'' (JInt 0)),
          (''created'', attr_get ch ''created'' JNull),
          (''creator'', attr_get ch ''creator'' JNull),
          (''is_archived'', attr_get ch ''is_archived'' (JBool False))])
       (get_channel_info w channel)"

text \<open>\<open>create_slack_channel\<close>.\<close>

definition create_slack_channel ::
  "world \<Rightarrow> string \<Rightarrow> bool option \<Rightarrow>
   outbound list \<times> (pyexc + json)" where
  "create_slack_channel w name is_private =
     on_result ''Failed to create channel''
       (\<lambda>d. let channel = dict_get (entries d) ''channel'' (JObj []) in
       build_dict
         [(''success'', Inr (JBool True)),
          (''channel_id'', attr_get channel ''id'' JNull),
          (''channel_name'', attr_get channel ''name'' JNull),
          (''is_private'', attr_get channel ''is_private'' (JBool False)),
          (''message'', Inr (JStr (''Channel #'' @ name @ '' created successfully'')))])
       (create_channel w name (or_default False is_private))"

text \<open>\<open>join_slack_channel\<close>.\<close>

definition join_slack_channel ::
  "world \<Rightarrow> string \<Rightarrow> outbound list \<times> (pyexc + json)" where
  "join_slack_channel w channel =
     on_result ''Failed to join channel''
       (\<lambda>d. Inr (JObj [(''success'', JBool True),
                  (''message'', JStr (''Successfully joined channel '' @ channel))]))
       (join_channel w channel)"

text \<open>\<open>leave_slack_channel\<close>.\<close>

definition leave_slack_channel ::
  "world \<Rightarrow> string \<Rightarrow> outbound list \<times> (pyexc + json)" where
  "leave_slack_channel w channel =
     on_result ''Failed to leave channel''
       (\<lambda>d. Inr (JObj [(''success'', JBool True),
                  (''message'', JStr (''Successfully left channel '' @ channel))]))
       (leave_channel w channel)"

text \<open>\<open>invite_to_slack_channel\<close>.\<close>

definition invite_to_slack_channel ::
  "world \<Rightarrow> string \<Rightarrow> str_or_list \<Rightarrow>
   outbound list \<times> (pyexc + json)" where
  "invite_to_slack_channel w channel users =
     on_result ''Failed to invite users to channel''
       (\<lambda>d. Inr (JObj [(''success'', JBool True),
                  (''message'', JStr (''Users invited to channel '' @ channel @ '' successfully''))]))
       (invite_to_channel w channel users)"

text \<open>\<open>kick_from_slack_channel\<close>.\<close>

definition kick_from_slack_channel ::
  "world \<Rightarrow> string \<Rightarrow> string \<Rightarrow>
   outbound list \<times> (pyexc + json)" where
  "kick_from_slack_channel w channel user =
     on_result ''Failed to remove user from channel''
       (\<lambda>d. Inr (JObj [(''success'', JBool True),
                  (''message'', JStr (''User removed from channel '' @ channel @ '' successfully''))]))
       (kick_from_channel w channel user)"

text \<open>\<open>set_slack_channel_topic\<close>.\<close>

definition set_slack_channel_topic ::
  "world \<Rightarrow> string \<Rightarrow> string \<Rightarrow>
   outbound list \<times> (pyexc + json)" where
  "set_slack_channel_topic w channel topic =
     on_result ''Failed to set channel topic''
       (\<lambda>d. Inr (JObj [(''success'', JBool True),
                  (''message'', JStr ''Channel topic updated successfully'')]))
       (set_channel_topic w channel topic)"

text \<open>\<open>set_slack_channel_purpose\<close>.\<close>

definition set_slack_channel_purpose ::
  "world \<Rightarrow> string \<Rightarrow> string \<Rightarrow>
   outbound list \<times> (pyexc + json)" where
  "set_slack_channel_purpose w channel purpose =
     on_result ''Failed to set channel purpose''
       (\<lambda>d. Inr (JObj [(''success'', JBool True),
                  (''message'', JStr ''Channel purpose updated successfully'')]))
       (set_channel_purpose w channel purpose)"

text \<open>\<open>archive_slack_channel\<close>.\<close>

definition archive_slack_channel ::
  "world \<Rightarrow> string \<Rightarrow> outbound list \<times> (pyexc + json)" where
  "archive_slack_channel w channel =
     on_result ''Failed to archive channel''
       (\<lambda>d. Inr (JObj [(''success'', JBool True),
                  (''message'', JStr (''Channel '' @ channel @ '' archived successfully''))]))
       (archive_channel w channel)"

text \<open>\<open>unarchive_slack_channel\<close>.\<close>

definition unarchive_slack_channel ::
  "world \<Rightarrow> string \<Rightarrow> outbound list \<times> (pyexc + json)" where
  "unarchive_slack_channel w channel =
     on_result ''Failed to unarchive channel''
       (\<lambda>d. Inr (JObj [(''success'', JBool True),
                  (''message'', JStr (''Channel '' @ channel @ '' unarchived successfully''))]))
       (unarchive_channel w channel)"

subsection \<open>Users\<close>

text \<open>\<open>list_slack_users\<close>.\<close>

definition list_slack_users ::
  "world \<Rightarrow> int option \<Rightarrow> string option \<Rightarrow>
   outbound list \<times> (pyexc + json)" where
  "list_slack_users w limit cursor =
     on_result ''Failed to list users''
       (\<lambda>d. case py_iter (dict_get (entries d) ''members'' (JList [])) of
            Inl e \<Rightarrow> Inl e
          | Inr users \<Rightarrow>
              (case comprehension not_deleted user_entry users of
                 Inl e \<Rightarrow> Inl e
               | Inr out \<Rightarrow> Inr (JList out)))
       (list_users w (or_default 100 limit) cursor)"

text \<open>\<open>get_slack_user_info\<close>.\<close>

definition get_slack_user_info ::
  "world \<Rightarrow> string \<Rightarrow> outbound list \<times> (pyexc + json)" where
  "get_slack_user_info w user =
     on_result ''Failed to get user info''
       (\<lambda>d. let user_data = dict_get (entries d) ''user'' (JObj []) in
          case attr_get user_data ''profile'' (JObj []) of
            Inl e \<Rightarrow> Inl e
          | Inr profile \<Rightarrow>
              build_dict
                [(''id'', attr_get user_data ''id'' JNull),
                 (''name'', attr_get user_data ''name'' JNull),
                 (''real_name'', attr_get user_data ''real_name'' (JStr [])),
                 (''display_name'', attr_get profile ''display_name'' (JStr [])),
                 (''email'', attr_get profile ''email'' (JStr [])),
                 (''phone'', attr_get profile ''phone'' (JStr [])),
                 (''title'', attr_get profile ''title'' (JStr [])),
                 (''is_bot'', attr_get user_data ''is_bot'' (JBool False)),
                 (''is_admin'', attr_get user_data ''is_admin'' (JBool False)),
                 (''is_owner'', attr_get user_data ''is_owner'' (JBool False)),
                 (''timezone'', attr_get user_data ''tz'' (JStr [])),
                 (''status_text'', attr_get profile ''status_text'' (JStr [])),
                 (''status_emoji'', attr_get profile ''status_emoji'' (JStr []))])
       (get_user_info w user)"

text \<open>\<open>get_slack_user_profile\<close>.\<close>

definition get_slack_user_profile ::
  "world \<Rightarrow> string \<Rightarrow> outbound list \<times> (pyexc + json)" where
  "get_slack_user_profile w user =
     on_result ''Failed to get user profile''
       (\<lambda>d. let profile = dict_get (entries d) ''profile'' (JObj []) in
       build_dict
         [(''display_name'', attr_get profile ''display_name'' (JStr [])),
          (''real_name'', attr_get profile ''real_name'' (JStr [])),
          (''email'', attr_get profile ''email'' (JStr [])),
          (''phone'', attr_get profile ''phone'' (JStr [])),
          (''title'', attr_get profile ''title'' (JStr [])),
          (''status_text'', attr_get profile ''status_text'' (JStr [])),
          (''status_emoji'', attr_get profile ''status_emoji'' (JStr [])),
          (''image_24'', attr_get profile ''image_24'' (JStr [])),
          (''image_32'', attr_get profile ''image_32'' (JStr [])),
          (''image_48'', attr_get profile ''image_48'' (JStr [])),
          (''image_72'', attr_get profile ''image_72'' (JStr [])),
          (''image_192'', attr_get profile ''image_192'' (JStr []))])
       (get_user_profile w user)"

text \<open>\<open>set_slack_presence\<close>.\<close>

definition set_slack_presence ::
  "world \<Rightarrow> string \<Rightarrow> outbound list \<times> (pyexc + json)" where
  "set_slack_presence w presence =
     on_result ''Failed to set presence''
       (\<lambda>d. Inr (JObj [(''success'', JBool True),
                  (''message'', JStr (''Presence set to '' @ presence))]))
       (set_user_presence w presence)"

subsection \<open>Files\<close>

text \<open>\<open>upload_slack_file\<close>.\<close>

definition upload_slack_file ::
  "world \<Rightarrow> str_or_list \<Rightarrow> string \<Rightarrow>
   string option \<Rightarrow> string option \<Rightarrow> string option \<Rightarrow>
   string option \<Rightarrow> outbound list \<times> (pyexc + json)" where
  "upload_slack_file w channels file_source filename title initial_comment thread_ts =
     on_result ''Failed to upload file''
       (\<lambda>d. let file_data = dict_get (entries d) ''file'' (JObj []) in
       build_dict
         [(''success'', Inr (JBool True)),
          (''file_id'', attr_get file_data ''id'' JNull),
          (''filename'', attr_get file_data ''name'' JNull),
          (''size'', attr_get file_data ''size'' JNull),
          (''url'', attr_get file_data ''url_private'' JNull),
          (''message'', Inr (JStr ''File uploaded successfully''))])
       (upload_file w channels file_source filename title initial_comment thread_ts)"

text \<open>\<open>list_slack_files\<close>.\<close>

definition list_slack_files ::
  "world \<Rightarrow> int option \<Rightarrow> string option \<Rightarrow>
   string option \<Rightarrow> string option \<Rightarrow> string option \<Rightarrow>
   string option \<Rightarrow> int option \<Rightarrow> outbound list \<times> (pyexc + json)" where
  "list_slack_files w count channel user ts_from ts_to types page =
     on_result ''Failed to list files''
       (\<lambda>d. case py_iter (dict_get (entries d) ''files'' (JList [])) of
            Inl e \<Rightarrow> Inl e
          | Inr files \<Rightarrow>
              (case comprehension (\<lambda>x. Inr True) file_entry files of
                 Inl e \<Rightarrow> Inl e
               | Inr out \<Rightarrow> Inr (JList out)))
       (list_files w user channel ts_from ts_to types (or_default 20 count) (or_default 1 page))"

text \<open>\<open>get_slack_file_info\<close>.\<close>

definition get_slack_file_info ::
  "world \<Rightarrow> string \<Rightarrow> outbound list \<times> (pyexc + json)" where
  "get_slack_file_info w file_id =
     on_result ''Failed to get file info''
       (\<lambda>d. let file_data = dict_get (entries d) ''file'' (JObj []) in
       build_dict
         [(''id'', attr_get file_data ''id'' JNull),
          (''name'', attr_get file_data ''name'' JNull),
          (''title'', attr_get file_data ''title'' (JStr [])),
          (''size'', attr_get file_data ''size'' JNull),
          (''type'', attr_get file_data ''filetype'' (JStr [])),
          (''mimetype'', attr_get file_data ''mimetype'' (JStr [])),
          (''user'', attr_get file_data ''user'' JNull),
          (''created'', attr_get file_data ''created'' JNull),
          (''url'', attr_get file_data ''url_private'' JNull),
          (''permalink'', attr_get file_data ''permalink'' (JStr [])),
          (''channels'', attr_get file_data ''channels'' (JList []))])
       (get_file_info w file_id)"

text \<open>\<open>delete_slack_file\<close>.\<close>

definition delete_slack_file ::
  "world \<Rightarrow> string \<Rightarrow> outbound list \<times> (pyexc + json)" where
  "delete_slack_file w file_id =
     on_result ''Failed to delete file''
       (\<lambda>d. Inr (JObj [(''success'', JBool True),
                  (''message'', JStr ''File deleted successfully'')]))
       (delete_file w file_id)"

subsection \<open>Reactions\<close>

text \<open>\<open>add_slack_reaction\<close>.\<close>

definition add_slack_reaction ::
  "world \<Rightarrow> string \<Rightarrow> string \<Rightarrow> string \<Rightarrow>
   outbound list \<times> (pyexc + json)" where
  "add_slack_reaction w channel message_ts emoji =
     on_result ''Failed to add reaction''
       (\<lambda>d. Inr (JObj [(''success'', JBool True),
                  (''message'', JStr (''Added :'' @ emoji @ '': reaction successfully''))]))
       (add_reaction w emoji channel message_ts)"

text \<open>\<open>remove_slack_reaction\<close>.\<close>

definition remove_slack_reaction ::
  "world \<Rightarrow> string \<Rightarrow> string \<Rightarrow> string \<Rightarrow>
   outbound list \<times> (pyexc + json)" where
  "remove_slack_reaction w channel message_ts emoji =
     on_result ''Failed to remove reaction''
       (\<lambda>d. Inr (JObj [(''success'', JBool True),
                  (''message'', JStr (''Removed :'' @ emoji @ '': reaction successfully''))]))
       (remove_reaction w emoji channel message_ts)"

text \<open>\<open>get_slack_reactions\<close>.\<close>

definition get_slack_reactions ::
  "world \<Rightarrow> string \<Rightarrow> string \<Rightarrow>
   outbound list \<times> (pyexc + json)" where
  "get_slack_reactions w channel message_ts =
     on_result ''Failed to get reactions''
       (\<lambda>d. build_dict
         [(''success'', Inr (JBool True)),
          (''reactions'', attr_get (dict_get (entries d) ''message'' (JObj [])) ''reactions'' (JList []))])
       (get_reactions w channel message_ts)"

subsection \<open>History\<close>

text \<open>\<open>get_slack_channel_history\<close>.\<close>

definition get_slack_channel_history ::
  "world \<Rightarrow> string \<Rightarrow> int option \<Rightarrow>
   string option \<Rightarrow> string option \<Rightarrow> string option \<Rightarrow>
   outbound list \<times> (pyexc + json)" where
  "get_slack_channel_history w channel limit cursor latest oldest =
     on_result ''Failed to get channel history''
       (\<lambda>d. case py_iter (dict_get (entries d) ''messages'' (JList [])) of
            Inl e \<Rightarrow> Inl e
          | Inr messages \<Rightarrow>
              (case comprehension (\<lambda>x. Inr True) history_entry messages of
                 Inl e \<Rightarrow> Inl e
               | Inr out \<Rightarrow> Inr (JList out)))
       (get_channel_history w channel (or_default 20 limit) cursor latest oldest)"

text \<open>\<open>get_slack_thread_replies\<close>.\<close>

definition get_slack_thread_replies ::
  "world \<Rightarrow> string \<Rightarrow> string \<Rightarrow> int option \<Rightarrow>
   string option \<Rightarrow> outbound list \<times> (pyexc + json)" where
  "get_slack_thread_replies w channel thread_ts limit cursor =
     on_result ''Failed to get thread replies''
       (\<lambda>d. case py_iter (dict_get (entries d) ''messages'' (JList [])) of
            Inl e \<Rightarrow> Inl e
          | Inr messages \<Rightarrow>
              (case comprehension (\<lambda>x. Inr True) reply_entry messages of
                 Inl e \<Rightarrow> Inl e
               | Inr out \<Rightarrow> Inr (JList out)))
       (get_thread_replies w channel thread_ts (or_default 100 limit) cursor)"

subsection \<open>Pins\<close>

text \<open>\<open>pin_slack_message\<close>.\<close>

definition pin_slack_message ::
  "world \<Rightarrow> string \<Rightarrow> string \<Rightarrow>
   outbound list \<times> (pyexc + json)" where
  "pin_slack_message w channel message_ts =
     on_result ''Failed to pin message''
       (\<lambda>d. Inr (JObj [(''success'', JBool True),
                  (''message'', JStr ''Message pinned successfully'')]))
       (pin_message w channel message_ts)"

text \<open>\<open>unpin_slack_message\<close>.\<close>

definition unpin_slack_message ::
  "world \<Rightarrow> string \<Rightarrow> string \<Rightarrow>
   outbound list \<times> (pyexc + json)" where
  "unpin_slack_message w channel message_ts =
     on_result ''Failed to unpin message''
       (\<lambda>d. Inr (JObj [(''success'', JBool True),
                  (''message'', JStr ''Message unpinned successfully'')]))
       (unpin_message w channel message_ts)"

text \<open>\<open>list_slack_pins\<close>.\<close>

definition list_slack_pins ::
  "world \<Rightarrow> string \<Rightarrow> outbound list \<times> (pyexc + json)" where
  "list_slack_pins w channel =
     on_result ''Failed to list pins''
       (\<lambda>d. case py_iter (dict_get (entries d) ''items'' (JList [])) of
            Inl e \<Rightarrow> Inl e
          | Inr items \<Rightarrow>
              (case pins_loop items of
                 Inl e \<Rightarrow> Inl e
               | Inr pins \<Rightarrow> Inr (JList pins)))
       (list_pins w channel)"

subsection \<open>Bookmarks\<close>

text \<open>\<open>add_slack_bookmark\<close>.\<close>

definition add_slack_bookmark ::
  "world \<Rightarrow> string \<Rightarrow> string \<Rightarrow> string \<Rightarrow>
   string option \<Rightarrow> string option \<Rightarrow>
   outbound list \<times> (pyexc + json)" where
  "add_slack_bookmark w channel_id title type link emoji =
     on_result ''Failed to add bookmark''
       (\<lambda>d. let bookmark = dict_get (entries d) ''bookmark'' (JObj []) in
       build_dict
         [(''success'', Inr (JBool True)),
          (''bookmark_id'', attr_get bookmark ''id'' JNull),
          (''title'', attr_get bookmark ''title'' JNull),
          (''message'', Inr (JStr ''Bookmark added successfully''))])
       (add_bookmark w channel_id title type link emoji)"

text \<open>\<open>remove_slack_bookmark\<close>.\<close>

definition remove_slack_bookmark ::
  "world \<Rightarrow> string \<Rightarrow> string \<Rightarrow>
   outbound list \<times> (pyexc + json)" where
  "remove_slack_bookmark w channel_id bookmark_id =
     on_result ''Failed to remove bookmark''
       (\<lambda>d. Inr (JObj [(''success'', JBool True),
                  (''message'', JStr ''Bookmark removed successfully'')]))
       (remove_bookmark w channel_id bookmark_id)"

text \<open>\<open>list_slack_bookmarks\<close>.\<close>

definition list_slack_bookmarks ::
  "world \<Rightarrow> string \<Rightarrow> outbound list \<times> (pyexc + json)" where
  "list_slack_bookmarks w channel_id =
     on_result ''Failed to list bookmarks''
       (\<lambda>d. case py_iter (dict_get (entries d) ''bookmarks'' (JList [])) of
            Inl e \<Rightarrow> Inl e
          | Inr bookmarks \<Rightarrow>
              (case comprehension (\<lambda>x. Inr True) bookmark_entry bookmarks of
                 Inl e \<Rightarrow> Inl e
               | Inr out \<Rightarrow> Inr (JList out)))
       (list_bookmarks w channel_id)"

subsection \<open>User groups\<close>

text \<open>\<open>create_slack_usergroup\<close>.\<close>

definition create_slack_usergroup ::
  "world \<Rightarrow> string \<Rightarrow> string option \<Rightarrow>
   string option \<Rightarrow> string list option \<Rightarrow>
   outbound list \<times> (pyexc + json)" where
  "create_slack_usergroup w name handle description channels =
     on_result ''Failed to create usergroup''
       (\<lambda>d. let usergroup = dict_get (entries d) ''usergroup'' (JObj []) in
       build_dict
         [(''success'', Inr (JBool True)),
          (''usergroup_id'', attr_get usergroup ''id'' JNull),
          (''name'', attr_get usergroup ''name'' JNull),
          (''handle'', attr_get usergroup ''handle'' JNull),
          (''message'', Inr (JStr ''Usergroup created successfully''))])
       (create_usergroup w name handle description channels)"

text \<open>\<open>list_slack_usergroups\<close>.\<close>

definition list_slack_usergroups ::
  "world \<Rightarrow> bool option \<Rightarrow> outbound list \<times> (pyexc + json)" where
  "list_slack_usergroups w include_disabled =
     on_result ''Failed to list usergroups''
       (\<lambda>d. case py_iter (dict_get (entries d) ''usergroups'' (JList [])) of
            Inl e \<Rightarrow> Inl e
          | Inr usergroups \<Rightarrow>
              (case comprehension (\<lambda>x. Inr True) usergroup_entry usergroups of
                 Inl e \<Rightarrow> Inl e
               | Inr out \<Rightarrow> Inr (JList out)))
       (list_usergroups w (or_default False include_disabled))"

text \<open>\<open>update_slack_usergroup\<close>.\<close>

definition update_slack_usergroup ::
  "world \<Rightarrow> string \<Rightarrow> string option \<Rightarrow>
   string option \<Rightarrow> string option \<Rightarrow>
   outbound list \<times> (pyexc + json)" where
  "update_slack_usergroup w usergroup name handle description =
     on_result ''Failed to update usergroup''
       (\<lambda>d. let usergroup_data = dict_get (entries d) ''usergroup'' (JObj []) in
       build_dict
         [(''success'', Inr (JBool True)),
          (''usergroup_id'', attr_get usergroup_data ''id'' JNull),
          (''name'', attr_get usergroup_data ''name'' JNull),
          (''handle'', attr_get usergroup_data ''handle'' JNull),
          (''message'', Inr (JStr ''Usergroup updated successfully''))])
       (update_usergroup w usergroup name handle description)"

text \<open>\<open>disable_slack_usergroup\<close>.\<close>

definition disable_slack_usergroup ::
  "world \<Rightarrow> string \<Rightarrow> outbound list \<times> (pyexc + json)" where
  "disable_slack_usergroup w usergroup =
     on_result ''Failed to disable usergroup''
       (\<lambda>d. Inr (JObj [(''success'', JBool True),
                  (''message'', JStr ''Usergroup disabled successfully'')]))
       (disable_usergroup w usergroup)"

subsection \<open>Team, emoji, do-not-disturb\<close>

text \<open>\<open>get_slack_team_info\<close>.\<close>

definition get_slack_team_info ::
  "world \<Rightarrow> outbound list \<times> (pyexc + json)" where
  "get_slack_team_info w =
     on_result ''Failed to get team info''
       (\<lambda>d. let team = dict_get (entries d) ''team'' (JObj []) in
       build_dict
         [(''id'', attr_get team ''id'' JNull),
          (''name'', attr_get team ''name'' JNull),
          (''domain'', attr_get team ''domain'' JNull),
          (''email_domain'', attr_get team ''email_domain'' JNull),
          (''icon'', attr_get team ''icon'' (JObj [])),
          (''enterprise_id'', attr_get team ''enterprise_id'' JNull),
          (''enterprise_name'', attr_get team ''enterprise_name'' JNull)])
       (get_team_info w)"

text \<open>\<open>get_slack_team_profile\<close>.\<close>

definition get_slack_team_profile ::
  "world \<Rightarrow> outbound list \<times> (pyexc + json)" where
  "get_slack_team_profile w =
     on_result ''Failed to get team profile''
       (\<lambda>d. let profile = dict_get (entries d) ''profile'' (JObj []) in
       build_dict
         [(''fields'', attr_get profile ''fields'' (JList []))])
       (get_team_profile w)"

text \<open>\<open>list_slack_emoji\<close>.\<close>

definition list_slack_emoji ::
  "world \<Rightarrow> outbound list \<times> (pyexc + json)" where
  "list_slack_emoji w =
     on_result ''Failed to list emoji''
       (\<lambda>d. case py_items (dict_get (entries d) ''emoji'' (JObj [])) of
            Inl e \<Rightarrow> Inl e
          | Inr emoji_data \<Rightarrow>
              Inr (JList (map (\<lambda>kv. JObj [(''name'', JStr (fst kv)), (''url'', snd kv)])
                            emoji_data)))
       (list_emoji w)"

text \<open>\<open>get_slack_dnd_info\<close>.\<close>

definition get_slack_dnd_info ::
  "world \<Rightarrow> string option \<Rightarrow> outbound list \<times> (pyexc + json)" where
  "get_slack_dnd_info w user =
     on_result ''Failed to get DND info''
       (\<lambda>d. Inr (JObj [(''dnd_enabled'', dict_get (entries d) ''dnd_enabled'' (JBool False)),
                  (''next_dnd_start_ts'', dict_get (entries d) ''next_dnd_start_ts'' JNull),
                  (''next_dnd_end_ts'', dict_get (entries d) ''next_dnd_end_ts'' JNull),
                  (''snooze_enabled'', dict_get (entries d) ''snooze_enabled'' (JBool False)),
                  (''snooze_endtime'', dict_get (entries d) ''snooze_endtime'' JNull),
                  (''snooze_remaining'', dict_get (entries d) ''snooze_remaining'' JNull)]))
       (get_dnd_info w user)"

text \<open>\<open>get_slack_team_dnd_info\<close>.\<close>

definition get_slack_team_dnd_info ::
  "world \<Rightarrow> string list option \<Rightarrow> outbound list \<times> (pyexc + json)" where
  "get_slack_team_dnd_info w users =
     on_result ''Failed to get team DND info''
       (\<lambda>d. Inr (JObj [(''users'', dict_get (entries d) ''users'' (JObj []))]))
       (get_dnd_team_info w users)"

section \<open>Notions of the specification and example worlds\<close>

text \<open>
  What an optional parameter contributes to the outbound mapping: nothing when the caller
  leaves it out or passes an empty value, otherwise one entry with the caller's value.
\<close>

definition given_str :: "string \<Rightarrow> string option \<Rightarrow> kwargs" where
  "given_str key v =
     (case v of None \<Rightarrow> [] | Some s \<Rightarrow> if s = [] then [] else [(key, ArgStr s)])"



text \<open>A member of the remote payload whose \<open>deleted\<close> flag is set.\<close>

definition flagged_deleted :: "json \<Rightarrow> bool" where
  "flagged_deleted user =
     (case user of JObj kvs \<Rightarrow> truthy (dict_get kvs ''deleted'' (JBool False)) | _ \<Rightarrow> False)"

text \<open>
  A world for the examples: every client operation exists and has the given outcome;
  \<open>urlparse\<close> is given on the strings the examples use, as Python computes it there;
  the filesystem holds \<open>/tmp/report.txt\<close> and an entry named \<open>https://example.com/a.pdf\<close>;
  every fetch answers with a PDF.
\<close>

definition example_urlparse :: "string \<Rightarrow> string + parse_result" where
  "example_urlparse s =
     (if s = ''https://example.com/a.pdf''
      then Inr \<lparr>scheme = ''https'', netloc = ''example.com'', path = ''/a.pdf''\<rparr>
      else if s = ''https://example.com/download''
      then Inr \<lparr>scheme = ''https'', netloc = ''example.com'', path = ''/download''\<rparr>
      else Inr \<lparr>scheme = [], netloc = [], path = s\<rparr>)"

definition example_world :: "remote_outcome \<Rightarrow> world" where
  "example_world outcome =
     \<lparr>client_method = (\<lambda>name. Some (\<lambda>kw. outcome)),
      urlparse = example_urlparse,
      os_path_isfile = (\<lambda>p. p = ''/tmp/report.txt'' \<or> p = ''https://example.com/a.pdf''),
      path_exists =
        (\<lambda>p. Inr (p = ''/tmp/report.txt'' \<or> p = ''https://example.com/a.pdf'')),
      http_get = (\<lambda>url. HttpResponse (Some ''application/pdf'') ''%PDF-1.4'')\<rparr>"

definition success_payload :: payload where
  "success_payload =
     \<lparr>ok_entry = Some True, error_entry = None, warning_entry = None,
      entries = [(''channel'', JStr ''C123''), (''ts'', JStr ''1700000000.000100'')]\<rparr>"

definition ratelimited_payload :: payload where
  "ratelimited_payload =
     \<lparr>ok_entry = Some False, error_entry = Some ''ratelimited'', warning_entry = None,
      entries = []\<rparr>"

definition example_members :: payload where
  "example_members =
     \<lparr>ok_entry = Some True, error_entry = None, warning_entry = None,
      entries = [(''members'',
        JList [JObj [(''id'', JStr ''U1''), (''name'', JStr ''ann'')],
               JObj [(''id'', JStr ''U2''), (''name'', JStr ''bob''), (''deleted'', JBool True)]])]\<rparr>"

text \<open>The example world with a fetch that answers with the given \<open>content-type\<close> header.\<close>

definition content_type_world :: "string option \<Rightarrow> world" where
  "content_type_world header =
     \<lparr>client_method = (\<lambda>name. Some (\<lambda>kw. Returned success_payload)),
      urlparse = example_urlparse,
      os_path_isfile = (\<lambda>p. False),
      path_exists = (\<lambda>p. Inr False),
      http_get = (\<lambda>url. HttpResponse header ''data'')\<rparr>"

text \<open>
  A world with an empty POSIX filesystem, on which a name of more than 255 bytes makes
  \<open>stat\<close> fail with \<open>ENAMETOOLONG\<close>: \<open>os.path.isfile\<close> answers \<open>False\<close> and
  \<open>Path(p).exists()\<close> raises. The strings used with it hold no colon, so \<open>urlparse\<close> finds
  no scheme and no network location.
\<close>

definition long_name_world :: world where
  "long_name_world =
     \<lparr>client_method = (\<lambda>name. Some (\<lambda>kw. Returned success_payload)),
      urlparse = (\<lambda>s. Inr \<lparr>scheme = [], netloc = [], path = s\<rparr>),
      os_path_isfile = (\<lambda>p. False),
      path_exists =
        (\<lambda>p. if 255 < length p
              then Inl (''[Errno 36] File name too long: '' @ sq @ p @ sq)
              else Inr False),
      http_get = (\<lambda>url. RaisedOther ''unreachable'')\<rparr>"

section \<open>Auxiliary facts\<close>

lemma fst_safe_api_call:
  "fst (safe_api_call w name kw) =
     (case client_method w name of None \<Rightarrow> [] | Some m \<Rightarrow> [SlackCall name kw])"
  by (simp add: safe_api_call_def split: option.splits)


lemma fst_caught: "fst (caught msg res) = fst res"
  by (cases res) (simp add: caught_def split: sum.splits)


lemma fst_cons_case: "fst (case res of (tr, r) \<Rightarrow> (ev # tr, r)) = ev # fst res"
  by (cases res) simp

text \<open>
  The handler of \<open>SlackApiError\<close> subscripts the response without a guard: when the
  response cannot be subscripted, the exception of the subscript leaves \<open>_safe_api_call\<close>.
\<close>

lemma safe_api_call_unsubscriptable_response:
  "client_method w name = Some method \<Longrightarrow> method kw = RaisedSlackApiError (Inl e) \<Longrightarrow>
     snd (safe_api_call w name kw) = Inl e"
  by (simp add: safe_api_call_def)

lemma basename_final_segment:
  assumes "CHR ''/'' \<notin> set seg"
  shows "basename (dir @ ''/'' @ seg) = seg"
proof -
  let ?P = "\<lambda>c. c \<noteq> CHR ''/''"
  have "takeWhile ?P (rev seg @ (CHR ''/'' # rev dir)) = rev seg @ takeWhile ?P (CHR ''/'' # rev dir)"
    by (rule takeWhile_append2) (use assms in auto)
  then have "takeWhile ?P (rev (dir @ ''/'' @ seg)) = rev seg" by simp
  then show ?thesis unfolding basename_def by (simp only: rev_rev_ident)
qed

lemma basename_no_slash:
  assumes "CHR ''/'' \<notin> set p"
  shows "basename p = p"
proof -
  let ?P = "\<lambda>c. c \<noteq> CHR ''/''"
  have "takeWhile ?P (rev p @ []) = rev p @ takeWhile ?P []"
    by (rule takeWhile_append2) (use assms in auto)
  then have "takeWhile ?P (rev p) = rev p" by (simp only: append_Nil2 takeWhile.simps)
  then show ?thesis unfolding basename_def by (simp only: rev_rev_ident)
qed

lemma put_str_given: "put_str key v kw = kw @ given_str key v"
  by (simp add: put_str_def given_str_def split: option.splits)



lemma upload_kwargs_given:
  "upload_kwargs ch file name title dt ic ts =
     [(''channel'', ArgStr ch), (''file'', file), (''filename'', ArgStr name),
      (''title'', ArgStr (case supplied title of Some t \<Rightarrow> t | None \<Rightarrow> dt))] @
     given_str ''initial_comment'' ic @ given_str ''thread_ts'' ts"
  by (simp add: upload_kwargs_def Let_def put_str_given split: option.splits)

lemma filename_upload_kwargs:
  "map_of (upload_kwargs ch file name title dt ic ts) ''filename'' = Some (ArgStr name)"
  by (simp add: upload_kwargs_given)

lemma comprehension_filter:
  "comprehension keep entry xs = Inr ys \<Longrightarrow>
     (\<forall>x \<in> set xs. \<exists>b. keep x = Inr b) \<and>
     list_all2 (\<lambda>x y. entry x = Inr y) (filter (\<lambda>x. keep x = Inr True) xs) ys"
proof (induction xs arbitrary: ys)
  case Nil
  then show ?case by simp
next
  case (Cons x xs)
  then show ?case
    by (auto split: sum.splits bool.splits if_splits)
qed

lemma not_deleted_dict:
  "not_deleted user = Inr b \<Longrightarrow> (\<exists>kvs. user = JObj kvs) \<and> b = (\<not> flagged_deleted user)"
  by (auto simp: not_deleted_def attr_get_def flagged_deleted_def split: json.splits sum.splits)

section \<open>Construction\<close>

text \<open>
  C8. Construction succeeds exactly for the tokens that begin with \<open>xoxb-\<close>, keeping the
  token; for every other token it raises the configuration error (a \<open>ValueError\<close>) and
  there is no instance.
\<close>

theorem init_prefix:
  "(prefix ''xoxb-'' token \<longrightarrow> init token = Inr \<lparr>bot_token = token\<rparr>) \<and>
   (\<not> prefix ''xoxb-'' token \<longrightarrow>
      init token = Inl (ValueError (''Bot token must start with '' @ sq @ ''xoxb-'' @ sq)))"
  by (simp add: init_def)

theorem init_prefix_witness:
  "prefix ''xoxb-'' ''xoxb-12-ab'' \<and> init ''xoxb-12-ab'' = Inr \<lparr>bot_token = ''xoxb-12-ab''\<rparr> \<and>
   \<not> prefix ''xoxb-'' ''xoxp-12'' \<and>
   init ''xoxp-12'' = Inl (ValueError (''Bot token must start with '' @ sq @ ''xoxb-'' @ sq))"
  using init_prefix [of "''xoxb-12-ab''"] init_prefix [of "''xoxp-12''"]
  by simp

section \<open>The envelope\<close>

text \<open>
  C2, as stated, fails: when the awaited operation is cancelled, the \<open>CancelledError\<close> is
  not of class \<open>Exception\<close>, passes both handlers and leaves \<open>_safe_api_call\<close>.
\<close>

theorem safe_api_call_cancelled_counterexample:
  "safe_api_call (example_world (RaisedCancelled [])) ''auth_test'' [] =
     ([SlackCall ''auth_test'' []], Inl (CancelledError []))"
  by (simp add: safe_api_call_def example_world_def)

text \<open>
  C2, amended. \<open>_safe_api_call\<close> returns an envelope and does not raise whenever the
  client has no such operation, the remote call returns, it raises \<open>SlackApiError\<close> with a
  decoded payload as its response, or it raises any other exception of class
  \<open>Exception\<close>; in the three failing cases the envelope has \<open>ok\<close> false, and for a return
  it is the envelope of the payload. A \<open>CancelledError\<close> leaves the function as it is.
\<close>

theorem safe_api_call_captures_exceptions:
  "(client_method w method_name = None \<longrightarrow>
      (\<exists>r. snd (safe_api_call w method_name kw) = Inr r \<and> \<not> ok r)) \<and>
   (\<forall>method. client_method w method_name = Some method \<longrightarrow>
      (\<forall>p. method kw = Returned p \<longrightarrow>
         snd (safe_api_call w method_name kw) = Inr (handle_response p)) \<and>
      (\<forall>p. method kw = RaisedSlackApiError (Inr p) \<longrightarrow>
         (\<exists>r. snd (safe_api_call w method_name kw) = Inr r \<and> \<not> ok r)) \<and>
      (\<forall>s. method kw = RaisedException s \<longrightarrow>
         (\<exists>r. snd (safe_api_call w method_name kw) = Inr r \<and> \<not> ok r)) \<and>
      (\<forall>s. method kw = RaisedCancelled s \<longrightarrow>
         snd (safe_api_call w method_name kw) = Inl (CancelledError s)))"
  by (simp add: safe_api_call_def)

theorem safe_api_call_captures_exceptions_witness:
  "client_method (example_world (RaisedException ''timed out'')) ''chat_postMessage'' =
     Some (\<lambda>kw. RaisedException ''timed out'') \<and>
   snd (safe_api_call (example_world (RaisedException ''timed out'')) ''chat_postMessage'' []) =
     Inr (failed ''timed out'') \<and>
   \<not> ok (failed ''timed out'')"
  using safe_api_call_captures_exceptions
    [of "example_world (RaisedException ''timed out'')" "''chat_postMessage''" "[]"]
  by (simp add: safe_api_call_def example_world_def failed_def)

text \<open>
  C1, as stated, fails: when the remote call raises an exception whose text is empty (as
  a timeout does), the envelope has \<open>ok\<close> false and the empty string as its error.
\<close>

theorem safe_api_call_empty_error_counterexample:
  "safe_api_call (example_world (RaisedException [])) ''auth_test'' [] =
     ([SlackCall ''auth_test'' []],
      Inr \<lparr>ok = False, data = empty_payload, error = Some [], warning = None\<rparr>)"
  by (simp add: safe_api_call_def example_world_def)

text \<open>
  C1, amended. For every envelope returned by \<open>_safe_api_call\<close>: if \<open>ok\<close> is true then the
  remote call returned a payload whose \<open>ok\<close> entry is true, \<open>data\<close> is that raw payload and
  \<open>error\<close> is the payload's own error entry (null when it has none); after a
  \<open>SlackApiError\<close>, \<open>ok\<close> is false, \<open>data\<close> is the error payload and \<open>error\<close> is its
  error entry; after any other exception, \<open>ok\<close> is false, \<open>data\<close> is empty and \<open>error\<close>
  is the exception's text; when the client has no such operation, \<open>ok\<close> is false and
  \<open>error\<close> is a non-empty string. \<open>_handle_response\<close> keeps the payload as \<open>data\<close>, its
  error entry as \<open>error\<close>, and has \<open>ok\<close> true exactly when the payload's \<open>ok\<close> entry is.
\<close>

theorem safe_api_call_envelope:
  assumes "snd (safe_api_call w method_name kw) = Inr r"
  shows "(ok r \<longrightarrow>
            (\<exists>method p. client_method w method_name = Some method \<and> method kw = Returned p \<and>
               ok_entry p = Some True \<and> data r = p \<and> error r = error_entry p)) \<and>
         (\<forall>method p. client_method w method_name = Some method \<and>
               method kw = RaisedSlackApiError (Inr p) \<longrightarrow>
               \<not> ok r \<and> data r = p \<and> error r = error_entry p) \<and>
         (\<forall>method s. client_method w method_name = Some method \<and>
               method kw = RaisedException s \<longrightarrow>
               \<not> ok r \<and> data r = empty_payload \<and> error r = Some s) \<and>
         (client_method w method_name = None \<longrightarrow>
               \<not> ok r \<and> data r = empty_payload \<and> (\<exists>e. error r = Some e \<and> e \<noteq> [])) \<and>
         data (handle_response p0) = p0 \<and> error (handle_response p0) = error_entry p0 \<and>
         (ok (handle_response p0) \<longleftrightarrow> ok_entry p0 = Some True)"
  using assms
  by (auto simp: safe_api_call_def handle_response_def no_attribute_def sq_def
           split: option.splits remote_outcome.splits sum.splits)

theorem safe_api_call_envelope_witness:
  "snd (safe_api_call (example_world (Returned success_payload)) ''chat_postMessage'' []) =
     Inr \<lparr>ok = True, data = success_payload, error = None, warning = None\<rparr> \<and>
   snd (safe_api_call (example_world (RaisedSlackApiError (Inr ratelimited_payload)))
          ''conversations_list'' []) =
     Inr \<lparr>ok = False, data = ratelimited_payload, error = Some ''ratelimited'',
          warning = None\<rparr>"
  using safe_api_call_envelope
    [of "example_world (Returned success_payload)" "''chat_postMessage''" "[]"
        "\<lparr>ok = True, data = success_payload, error = None, warning = None\<rparr>" success_payload]
  by (simp add: safe_api_call_def example_world_def handle_response_def success_payload_def
        ratelimited_payload_def)

section \<open>Validation before any call\<close>

text \<open>
  C9. A message send in which both \<open>text\<close> and \<open>blocks\<close> are absent raises the validation
  error and makes no outbound call, whatever the other parameters and the world are.
\<close>

theorem send_slack_message_requires_content:
  "send_slack_message w channel None None attachments thread_ts username icon_emoji icon_url =
     ([], Inl (ValueError ''Either text or blocks must be provided''))"
  by (simp add: send_slack_message_def truthy_str_def truthy_list_def)

theorem send_slack_message_requires_content_witness:
  "send_slack_message (example_world (Returned success_payload)) ''C123'' None None None None
     None None None = ([], Inl (ValueError ''Either text or blocks must be provided''))"
  using send_slack_message_requires_content
    [of "example_world (Returned success_payload)" "''C123''" None None None None None]
  by simp

text \<open>
  C4. An upload whose source is classified as literal text, the URL test and the path
  test both answering false, and whose filename is absent fails at once: the adapter
  returns the failed envelope with the validation message and the facade raises it, and
  in both the list of outbound calls is empty.
\<close>

theorem upload_text_without_filename:
  assumes "\<not> is_url w file_source" and "is_file_path w file_source = Inr False"
  shows "upload_file w channels file_source None title initial_comment thread_ts =
           ([], Inr (failed ''filename is required when uploading text content'')) \<and>
         upload_slack_file w channels file_source None title initial_comment thread_ts =
           ([], Inl (ValueError
                  ''Failed to upload file: filename is required when uploading text content''))"
  using assms
  by (simp add: upload_file_def upload_slack_file_def supplied_def truthy_str_def on_result_def
        failed_def format_error_def)

theorem upload_text_without_filename_witness:
  "\<not> is_url (example_world (Returned success_payload)) ''hello world'' \<and>
   is_file_path (example_world (Returned success_payload)) ''hello world'' = Inr False \<and>
   upload_slack_file (example_world (Returned success_payload)) (Single ''C123'')
       ''hello world'' None None None None =
     ([], Inl (ValueError
            ''Failed to upload file: filename is required when uploading text content''))"
proof -
  let ?w = "example_world (Returned success_payload)"
  have a: "\<not> is_url ?w ''hello world''"
    by (simp add: is_url_def example_world_def example_urlparse_def)
  have b: "is_file_path ?w ''hello world'' = Inr False"
    by (simp add: is_file_path_def example_world_def)
  from upload_text_without_filename [OF a b, of "Single ''C123''" None None None] a b
  show ?thesis by simp
qed

section \<open>Failures raised by the facade\<close>

text \<open>
  C7. Whenever the adapter's envelope has \<open>ok\<close> false, each of the forty-four facade
  operations raises a \<open>ValueError\<close> whose message is the operation's own context, a colon
  and a space, and then the envelope's error as \<open>f"{result.error}"\<close> prints it: the error
  string itself when there is one, \<open>None\<close> when the envelope carries no error.
\<close>

theorem facade_failure_message:
  assumes "\<not> ok r"
  shows
   "(test_auth w = (tr, Inr r) \<longrightarrow>
      test_slack_auth w =
        (tr, Inl (ValueError (''Authentication failed: '' @ format_error (error r))))) \<and>
    (send_message w channel text blocks attachments thread_ts username icon_emoji icon_url = (tr, Inr r) \<and>
       (truthy_str text \<or> truthy_list blocks) \<longrightarrow>
      send_slack_message w channel text blocks attachments thread_ts username icon_emoji icon_url =
        (tr, Inl (ValueError (''Failed to send message: '' @ format_error (error r))))) \<and>
    (update_message w channel message_ts text blocks attachments = (tr, Inr r) \<longrightarrow>
      update_slack_message w channel message_ts text blocks attachments =
        (tr, Inl (ValueError (''Failed to update message: '' @ format_error (error r))))) \<and>
    (delete_message w channel message_ts = (tr, Inr r) \<longrightarrow>
      delete_slack_message w channel message_ts =
        (tr, Inl (ValueError (''Failed to delete message: '' @ format_error (error r))))) \<and>
    (schedule_message w channel post_at text blocks attachments = (tr, Inr r) \<longrightarrow>
      schedule_slack_message w channel post_at text blocks attachments =
        (tr, Inl (ValueError (''Failed to schedule message: '' @ format_error (error r))))) \<and>
    (list_channels w (or_default True exclude_archived) (or_default 100 limit) cursor (or_default ''public_channel,private_channel'' types) = (tr, Inr r) \<longrightarrow>
      list_slack_channels w limit exclude_archived types cursor =
        (tr, Inl (ValueError (''Failed to list channels: '' @ format_error (error r))))) \<and>
    (get_channel_info w channel = (tr, Inr r) \<longrightarrow>
      get_slack_channel_info w channel =
        (tr, Inl (ValueError (''Failed to get channel info: '' @ format_error (error r))))) \<and>
    (create_channel w name (or_default False is_private) = (tr, Inr r) \<longrightarrow>
      create_slack_channel w name is_private =
        (tr, Inl (ValueError (''Failed to create channel: '' @ format_error (error r))))) \<and>
    (join_channel w channel = (tr, Inr r) \<longrightarrow>
      join_slack_channel w channel =
        (tr, Inl (ValueError (''Failed to join channel: '' @ format_error (error r))))) \<and>
    (leave_channel w channel = (tr, Inr r) \<longrightarrow>
      leave_slack_channel w channel =
        (tr, Inl (ValueError (''Failed to leave channel: '' @ format_error (error r))))) \<and>
    (invite_to_channel w channel users = (tr, Inr r) \<longrightarrow>
      invite_to_slack_channel w channel users =
        (tr, Inl (ValueError (''Failed to invite users to channel: '' @ format_error (error r))))) \<and>
    (kick_from_channel w channel user = (tr, Inr r) \<longrightarrow>
      kick_from_slack_channel w channel user =
        (tr, Inl (ValueError (''Failed to remove user from channel: '' @ format_error (error r))))) \<and>
    (set_channel_topic w channel topic = (tr, Inr r) \<longrightarrow>
      set_slack_channel_topic w channel topic =
        (tr, Inl (ValueError (''Failed to set channel topic: '' @ format_error (error r))))) \<and>
    (set_channel_purpose w channel purpose = (tr, Inr r) \<longrightarrow>
      set_slack_channel_purpose w channel purpose =
        (tr, Inl (ValueError (''Failed to set channel purpose: '' @ format_error (error r))))) \<and>
    (archive_channel w channel = (tr, Inr r) \<longrightarrow>
      archive_slack_channel w channel =
        (tr, Inl (ValueError (''Failed to archive channel: '' @ format_error (error r))))) \<and>
    (unarchive_channel w channel = (tr, Inr r) \<longrightarrow>
      unarchive_slack_channel w channel =
        (tr, Inl (ValueError (''Failed to unarchive channel: '' @ format_error (error r))))) \<and>
    (list_users w (or_default 100 limit) cursor = (tr, Inr r) \<longrightarrow>
      list_slack_users w limit cursor =
        (tr, Inl (ValueError (''Failed to list users: '' @ format_error (error r))))) \<and>
    (get_user_info w user = (tr, Inr r) \<longrightarrow>
      get_slack_user_info w user =
        (tr, Inl (ValueError (''Failed to get user info: '' @ format_error (error r))))) \<and>
    (get_user_profile w user = (tr, Inr r) \<longrightarrow>
      get_slack_user_profile w user =
        (tr, Inl (ValueError (''Failed to get user profile: '' @ format_error (error r))))) \<and>
    (set_user_presence w presence = (tr, Inr r) \<longrightarrow>
      set_slack_presence w presence =
        (tr, Inl (ValueError (''Failed to set presence: '' @ format_error (error r))))) \<and>
    (upload_file w channels file_source filename title initial_comment thread_ts = (tr, Inr r) \<longrightarrow>
      upload_slack_file w channels file_source filename title initial_comment thread_ts =
        (tr, Inl (ValueError (''Failed to upload file: '' @ format_error (error r))))) \<and>
    (list_files w user2 channel2 ts_from ts_to types (or_default 20 count) (or_default 1 page) = (tr, Inr r) \<longrightarrow>
      list_slack_files w count channel2 user2 ts_from ts_to types page =
        (tr, Inl (ValueError (''Failed to list files: '' @ format_error (error r))))) \<and>
    (get_file_info w file_id = (tr, Inr r) \<longrightarrow>
      get_slack_file_info w file_id =
        (tr, Inl (ValueError (''Failed to get file info: '' @ format_error (error r))))) \<and>
    (delete_file w file_id = (tr, Inr r) \<longrightarrow>
      delete_slack_file w file_id =
        (tr, Inl (ValueError (''Failed to delete file: '' @ format_error (error r))))) \<and>
    (add_reaction w emoji channel message_ts = (tr, Inr r) \<longrightarrow>
      add_slack_reaction w channel message_ts emoji =
        (tr, Inl (ValueError (''Failed to add reaction: '' @ format_error (error r))))) \<and>
    (remove_reaction w emoji channel message_ts = (tr, Inr r) \<longrightarrow>
      remove_slack_reaction w channel message_ts emoji =
        (tr, Inl (ValueError (''Failed to remove reaction: '' @ format_error (error r))))) \<and>
    (get_reactions w channel message_ts = (tr, Inr r) \<longrightarrow>
      get_slack_reactions w channel message_ts =
        (tr, Inl (ValueError (''Failed to get reactions: '' @ format_error (error r))))) \<and>
    (get_channel_history w channel (or_default 20 limit) cursor latest oldest = (tr, Inr r) \<longrightarrow>
      get_slack_channel_history w channel limit cursor latest oldest =
        (tr, Inl (ValueError (''Failed to get channel history: '' @ format_error (error r))))) \<and>
    (get_thread_replies w channel thread_ts2 (or_default 100 limit) cursor = (tr, Inr r) \<longrightarrow>
      get_slack_thread_replies w channel thread_ts2 limit cursor =
        (tr, Inl (ValueError (''Failed to get thread replies: '' @ format_error (error r))))) \<and>
    (pin_message w channel message_ts = (tr, Inr r) \<longrightarrow>
      pin_slack_message w channel message_ts =
        (tr, Inl (ValueError (''Failed to pin message: '' @ format_error (error r))))) \<and>
    (unpin_message w channel message_ts = (tr, Inr r) \<longrightarrow>
      unpin_slack_message w channel message_ts =
        (tr, Inl (ValueError (''Failed to unpin message: '' @ format_error (error r))))) \<and>
    (list_pins w channel = (tr, Inr r) \<longrightarrow>
      list_slack_pins w channel =
        (tr, Inl (ValueError (''Failed to list pins: '' @ format_error (error r))))) \<and>
    (add_bookmark w channel_id title2 type link emoji2 = (tr, Inr r) \<longrightarrow>
      add_slack_bookmark w channel_id title2 type link emoji2 =
        (tr, Inl (ValueError (''Failed to add bookmark: '' @ format_error (error r))))) \<and>
    (remove_bookmark w channel_id bookmark_id = (tr, Inr r) \<longrightarrow>
      remove_slack_bookmark w channel_id bookmark_id =
        (tr, Inl (ValueError (''Failed to remove bookmark: '' @ format_error (error r))))) \<and>
    (list_bookmarks w channel_id = (tr, Inr r) \<longrightarrow>
      list_slack_bookmarks w channel_id =
        (tr, Inl (ValueError (''Failed to list bookmarks: '' @ format_error (error r))))) \<and>
    (create_usergroup w name handle description channels2 = (tr, Inr r) \<longrightarrow>
      create_slack_usergroup w name handle description channels2 =
        (tr, Inl (ValueError (''Failed to create usergroup: '' @ format_error (error r))))) \<and>
    (list_usergroups w (or_default False include_disabled) = (tr, Inr r) \<longrightarrow>
      list_slack_usergroups w include_disabled =
        (tr, Inl (ValueError (''Failed to list usergroups: '' @ format_error (error r))))) \<and>
    (update_usergroup w usergroup name2 handle description = (tr, Inr r) \<longrightarrow>
      update_slack_usergroup w usergroup name2 handle description =
        (tr, Inl (ValueError (''Failed to update usergroup: '' @ format_error (error r))))) \<and>
    (disable_usergroup w usergroup = (tr, Inr r) \<longrightarrow>
      disable_slack_usergroup w usergroup =
        (tr, Inl (ValueError (''Failed to disable usergroup: '' @ format_error (error r))))) \<and>
    (get_team_info w = (tr, Inr r) \<longrightarrow>
      get_slack_team_info w =
        (tr, Inl (ValueError (''Failed to get team info: '' @ format_error (error r))))) \<and>
    (get_team_profile w = (tr, Inr r) \<longrightarrow>
      get_slack_team_profile w =
        (tr, Inl (ValueError (''Failed to get team profile: '' @ format_error (error r))))) \<and>
    (list_emoji w = (tr, Inr r) \<longrightarrow>
      list_slack_emoji w =
        (tr, Inl (ValueError (''Failed to list emoji: '' @ format_error (error r))))) \<and>
    (get_dnd_info w user2 = (tr, Inr r) \<longrightarrow>
      get_slack_dnd_info w user2 =
        (tr, Inl (ValueError (''Failed to get DND info: '' @ format_error (error r))))) \<and>
    (get_dnd_team_info w users2 = (tr, Inr r) \<longrightarrow>
      get_slack_team_dnd_info w users2 =
        (tr, Inl (ValueError (''Failed to get team DND info: '' @ format_error (error r))))) \<and>
    format_error (Some e) = e \<and>
    format_error None = ''None''"
proof -
  have c1: "(test_auth w = (tr, Inr r) \<longrightarrow>
          test_slack_auth w =
            (tr, Inl (ValueError (''Authentication failed: '' @ format_error (error r)))))"
    using assms by (simp add: test_slack_auth_def on_result_def)
  have c2: "(send_message w channel text blocks attachments thread_ts username icon_emoji icon_url = (tr, Inr r) \<and>
           (truthy_str text \<or> truthy_list blocks) \<longrightarrow>
          send_slack_message w channel text blocks attachments thread_ts username icon_emoji icon_url =
            (tr, Inl (ValueError (''Failed to send message: '' @ format_error (error r)))))"
    using assms by (simp add: send_slack_message_def on_result_def)
  have c3: "(update_message w channel message_ts text blocks attachments = (tr, Inr r) \<longrightarrow>
          update_slack_message w channel message_ts text blocks attachments =
            (tr, Inl (ValueError (''Failed to update message: '' @ format_error (error r)))))"
    using assms by (simp add: update_slack_message_def on_result_def)
  have c4: "(delete_message w channel message_ts = (tr, Inr r) \<longrightarrow>
          delete_slack_message w channel message_ts =
            (tr, Inl (ValueError (''Failed to delete message: '' @ format_error (error r)))))"
    using assms by (simp add: delete_slack_message_def on_result_def)
  have c5: "(schedule_message w channel post_at text blocks attachments = (tr, Inr r) \<longrightarrow>
          schedule_slack_message w channel post_at text blocks attachments =
            (tr, Inl (ValueError (''Failed to schedule message: '' @ format_error (error r)))))"
    using assms by (simp add: schedule_slack_message_def on_result_def)
  have c6: "(list_channels w (or_default True exclude_archived) (or_default 100 limit) cursor (or_default ''public_channel,private_channel'' types) = (tr, Inr r) \<longrightarrow>
          list_slack_channels w limit exclude_archived types cursor =
            (tr, Inl (ValueError (''Failed to list channels: '' @ format_error (error r)))))"
    using assms by (simp add: list_slack_channels_def on_result_def)
  have c7: "(get_channel_info w channel = (tr, Inr r) \<longrightarrow>
          get_slack_channel_info w channel =
            (tr, Inl (ValueError (''Failed to get channel info: '' @ format_error (error r)))))"
    using assms by (simp add: get_slack_channel_info_def on_result_def)
  have c8: "(create_channel w name (or_default False is_private) = (tr, Inr r) \<longrightarrow>
          create_slack_channel w name is_private =
            (tr, Inl (ValueError (''Failed to create channel: '' @ format_error (error r)))))"
    using assms by (simp add: create_slack_channel_def on_result_def)
  have c9: "(join_channel w channel = (tr, Inr r) \<longrightarrow>
          join_slack_channel w channel =
            (tr, Inl (ValueError (''Failed to join channel: '' @ format_error (error r)))))"
    using assms by (simp add: join_slack_channel_def on_result_def)
  have c10: "(leave_channel w channel = (tr, Inr r) \<longrightarrow>
          leave_slack_channel w channel =
            (tr, Inl (ValueError (''Failed to leave channel: '' @ format_error (error r)))))"
    using assms by (simp add: leave_slack_channel_def on_result_def)
  have c11: "(invite_to_channel w channel users = (tr, Inr r) \<longrightarrow>
          invite_to_slack_channel w channel users =
            (tr, Inl (ValueError (''Failed to invite users to channel: '' @ format_error (error r)))))"
    using assms by (simp add: invite_to_slack_channel_def on_result_def)
  have c12: "(kick_from_channel w channel user = (tr, Inr r) \<longrightarrow>
          kick_from_slack_channel w channel user =
            (tr, Inl (ValueError (''Failed to remove user from channel: '' @ format_error (error r)))))"
    using assms by (simp add: kick_from_slack_channel_def on_result_def)
  have c13: "(set_channel_topic w channel topic = (tr, Inr r) \<longrightarrow>
          set_slack_channel_topic w channel topic =
            (tr, Inl (ValueError (''Failed to set channel topic: '' @ format_error (error r)))))"
    using assms by (simp add: set_slack_channel_topic_def on_result_def)
  have c14: "(set_channel_purpose w channel purpose = (tr, Inr r) \<longrightarrow>
          set_slack_channel_purpose w channel purpose =
            (tr, Inl (ValueError (''Failed to set channel purpose: '' @ format_error (error r)))))"
    using assms by (simp add: set_slack_channel_purpose_def on_result_def)
  have c15: "(archive_channel w channel = (tr, Inr r) \<longrightarrow>
          archive_slack_channel w channel =
            (tr, Inl (ValueError (''Failed to archive channel: '' @ format_error (error r)))))"
    using assms by (simp add: archive_slack_channel_def on_result_def)
  have c16: "(unarchive_channel w channel = (tr, Inr r) \<longrightarrow>
          unarchive_slack_channel w channel =
            (tr, Inl (ValueError (''Failed to unarchive channel: '' @ format_error (error r)))))"
    using assms by (simp add: unarchive_slack_channel_def on_result_def)
  have c17: "(list_users w (or_default 100 limit) cursor = (tr, Inr r) \<longrightarrow>
          list_slack_users w limit cursor =
            (tr, Inl (ValueError (''Failed to list users: '' @ format_error (error r)))))"
    using assms by (simp add: list_slack_users_def on_result_def)
  have c18: "(get_user_info w user = (tr, Inr r) \<longrightarrow>
          get_slack_user_info w user =
            (tr, Inl (ValueError (''Failed to get user info: '' @ format_error (error r)))))"
    using assms by (simp add: get_slack_user_info_def on_result_def)
  have c19: "(get_user_profile w user = (tr, Inr r) \<longrightarrow>
          get_slack_user_profile w user =
            (tr, Inl (ValueError (''Failed to get user profile: '' @ format_error (error r)))))"
    using assms by (simp add: get_slack_user_profile_def on_result_def)
  have c20: "(set_user_presence w presence = (tr, Inr r) \<longrightarrow>
          set_slack_presence w presence =
            (tr, Inl (ValueError (''Failed to set presence: '' @ format_error (error r)))))"
    using assms by (simp add: set_slack_presence_def on_result_def)
  have c21: "(upload_file w channels file_source filename title initial_comment thread_ts = (tr, Inr r) \<longrightarrow>
          upload_slack_file w channels file_source filename title initial_comment thread_ts =
            (tr, Inl (ValueError (''Failed to upload file: '' @ format_error (error r)))))"
    using assms by (simp add: upload_slack_file_def on_result_def)
  have c22: "(list_files w user2 channel2 ts_from ts_to types (or_default 20 count) (or_default 1 page) = (tr, Inr r) \<longrightarrow>
          list_slack_files w count channel2 user2 ts_from ts_to types page =
            (tr, Inl (ValueError (''Failed to list files: '' @ format_error (error r)))))"
    using assms by (simp add: list_slack_files_def on_result_def)
  have c23: "(get_file_info w file_id = (tr, Inr r) \<longrightarrow>
          get_slack_file_info w file_id =
            (tr, Inl (ValueError (''Failed to get file info: '' @ format_error (error r)))))"
    using assms by (simp add: get_slack_file_info_def on_result_def)
  have c24: "(delete_file w file_id = (tr, Inr r) \<longrightarrow>
          delete_slack_file w file_id =
            (tr, Inl (ValueError (''Failed to delete file: '' @ format_error (error r)))))"
    using assms by (simp add: delete_slack_file_def on_result_def)
  have c25: "(add_reaction w emoji channel message_ts = (tr, Inr r) \<longrightarrow>
          add_slack_reaction w channel message_ts emoji =
            (tr, Inl (ValueError (''Failed to add reaction: '' @ format_error (error r)))))"
    using assms by (simp add: add_slack_reaction_def on_result_def)
  have c26: "(remove_reaction w emoji channel message_ts = (tr, Inr r) \<longrightarrow>
          remove_slack_reaction w channel message_ts emoji =
            (tr, Inl (ValueError (''Failed to remove reaction: '' @ format_error (error r)))))"
    using assms by (simp add: remove_slack_reaction_def on_result_def)
  have c27: "(get_reactions w channel message_ts = (tr, Inr r) \<longrightarrow>
          get_slack_reactions w channel message_ts =
            (tr, Inl (ValueError (''Failed to get reactions: '' @ format_error (error r)))))"
    using assms by (simp add: get_slack_reactions_def on_result_def)
  have c28: "(get_channel_history w channel (or_default 20 limit) cursor latest oldest = (tr, Inr r) \<longrightarrow>
          get_slack_channel_history w channel limit cursor latest oldest =
            (tr, Inl (ValueError (''Failed to get channel history: '' @ format_error (error r)))))"
    using assms by (simp add: get_slack_channel_history_def on_result_def)
  have c29: "(get_thread_replies w channel thread_ts2 (or_default 100 limit) cursor = (tr, Inr r) \<longrightarrow>
          get_slack_thread_replies w channel thread_ts2 limit cursor =
            (tr, Inl (ValueError (''Failed to get thread replies: '' @ format_error (error r)))))"
    using assms by (simp add: get_slack_thread_replies_def on_result_def)
  have c30: "(pin_message w channel message_ts = (tr, Inr r) \<longrightarrow>
          pin_slack_message w channel message_ts =
            (tr, Inl (ValueError (''Failed to pin message: '' @ format_error (error r)))))"
    using assms by (simp add: pin_slack_message_def on_result_def)
  have c31: "(unpin_message w channel message_ts = (tr, Inr r) \<longrightarrow>
          unpin_slack_message w channel message_ts =
            (tr, Inl (ValueError (''Failed to unpin message: '' @ format_error (error r)))))"
    using assms by (simp add: unpin_slack_message_def on_result_def)
  have c32: "(list_pins w channel = (tr, Inr r) \<longrightarrow>
          list_slack_pins w channel =
            (tr, Inl (ValueError (''Failed to list pins: '' @ format_error (error r)))))"
    using assms by (simp add: list_slack_pins_def on_result_def)
  have c33: "(add_bookmark w channel_id title2 type link emoji2 = (tr, Inr r) \<longrightarrow>
          add_slack_bookmark w channel_id title2 type link emoji2 =
            (tr, Inl (ValueError (''Failed to add bookmark: '' @ format_error (error r)))))"
    using assms by (simp add: add_slack_bookmark_def on_result_def)
  have c34: "(remove_bookmark w channel_id bookmark_id = (tr, Inr r) \<longrightarrow>
          remove_slack_bookmark w channel_id bookmark_id =
            (tr, Inl (ValueError (''Failed to remove bookmark: '' @ format_error (error r)))))"
    using assms by (simp add: remove_slack_bookmark_def on_result_def)
  have c35: "(list_bookmarks w channel_id = (tr, Inr r) \<longrightarrow>
          list_slack_bookmarks w channel_id =
            (tr, Inl (ValueError (''Failed to list bookmarks: '' @ format_error (error r)))))"
    using assms by (simp add: list_slack_bookmarks_def on_result_def)
  have c36: "(create_usergroup w name handle description channels2 = (tr, Inr r) \<longrightarrow>
          create_slack_usergroup w name handle description channels2 =
            (tr, Inl (ValueError (''Failed to create usergroup: '' @ format_error (error r)))))"
    using assms by (simp add: create_slack_usergroup_def on_result_def)
  have c37: "(list_usergroups w (or_default False include_disabled) = (tr, Inr r) \<longrightarrow>
          list_slack_usergroups w include_disabled =
            (tr, Inl (ValueError (''Failed to list usergroups: '' @ format_error (error r)))))"
    using assms by (simp add: list_slack_usergroups_def on_result_def)
  have c38: "(update_usergroup w usergroup name2 handle description = (tr, Inr r) \<longrightarrow>
          update_slack_usergroup w usergroup name2 handle description =
            (tr, Inl (ValueError (''Failed to update usergroup: '' @ format_error (error r)))))"
    using assms by (simp add: update_slack_usergroup_def on_result_def)
  have c39: "(disable_usergroup w usergroup = (tr, Inr r) \<longrightarrow>
          disable_slack_usergroup w usergroup =
            (tr, Inl (ValueError (''Failed to disable usergroup: '' @ format_error (error r)))))"
    using assms by (simp add: disable_slack_usergroup_def on_result_def)
  have c40: "(get_team_info w = (tr, Inr r) \<longrightarrow>
          get_slack_team_info w =
            (tr, Inl (ValueError (''Failed to get team info: '' @ format_error (error r)))))"
    using assms by (simp add: get_slack_team_info_def on_result_def)
  have c41: "(get_team_profile w = (tr, Inr r) \<longrightarrow>
          get_slack_team_profile w =
            (tr, Inl (ValueError (''Failed to get team profile: '' @ format_error (error r)))))"
    using assms by (simp add: get_slack_team_profile_def on_result_def)
  have c42: "(list_emoji w = (tr, Inr r) \<longrightarrow>
          list_slack_emoji w =
            (tr, Inl (ValueError (''Failed to list emoji: '' @ format_error (error r)))))"
    using assms by (simp add: list_slack_emoji_def on_result_def)
  have c43: "(get_dnd_info w user2 = (tr, Inr r) \<longrightarrow>
          get_slack_dnd_info w user2 =
            (tr, Inl (ValueError (''Failed to get DND info: '' @ format_error (error r)))))"
    using assms by (simp add: get_slack_dnd_info_def on_result_def)
  have c44: "(get_dnd_team_info w users2 = (tr, Inr r) \<longrightarrow>
          get_slack_team_dnd_info w users2 =
            (tr, Inl (ValueError (''Failed to get team DND info: '' @ format_error (error r)))))"
    using assms by (simp add: get_slack_team_dnd_info_def on_result_def)
  have f1: "format_error (Some e) = e" by (simp add: format_error_def)
  have f2: "format_error None = ''None''" by (simp add: format_error_def)
  show ?thesis
    using c1 c2 c3 c4 c5 c6 c7 c8 c9 c10 c11 c12 
      c13 c14 c15 c16 c17 c18 c19 c20 c21 c22 c23 c24 
      c25 c26 c27 c28 c29 c30 c31 c32 c33 c34 c35 c36 
      c37 c38 c39 c40 c41 c42 c43 c44 f1 f2
    by (intro conjI)
qed

theorem facade_failure_message_witness:
  "\<not> ok \<lparr>ok = False, data = ratelimited_payload, error = Some ''ratelimited'',
          warning = None\<rparr> \<and>
   list_slack_channels (example_world (RaisedSlackApiError (Inr ratelimited_payload)))
       (Some 100) (Some True) None None =
     ([SlackCall ''conversations_list''
         [(''exclude_archived'', ArgBool True), (''limit'', ArgInt 100),
          (''types'', ArgStr ''public_channel,private_channel'')]],
      Inl (ValueError ''Failed to list channels: ratelimited''))"
proof -
  let ?w = "example_world (RaisedSlackApiError (Inr ratelimited_payload))"
  let ?r = "\<lparr>ok = False, data = ratelimited_payload, error = Some ''ratelimited'',
             warning = None\<rparr>"
  let ?tr = "[SlackCall ''conversations_list''
         [(''exclude_archived'', ArgBool True), (''limit'', ArgInt 100),
          (''types'', ArgStr ''public_channel,private_channel'')]]"
  have call: "list_channels ?w True 100 None ''public_channel,private_channel'' = (?tr, Inr ?r)"
    by (simp add: list_channels_def put_str_def safe_api_call_def example_world_def
          ratelimited_payload_def)
  have nok: "\<not> ok ?r" by simp
  have "list_channels ?w (or_default True (Some True)) (or_default 100 (Some 100)) None
          (or_default ''public_channel,private_channel'' None) = (?tr, Inr ?r) \<longrightarrow>
        list_slack_channels ?w (Some 100) (Some True) None None =
          (?tr, Inl (ValueError (''Failed to list channels: '' @ format_error (error ?r))))"
    by (rule facade_failure_message [OF nok, where w = "?w" and tr = "?tr" and limit = "Some 100" and exclude_archived = "Some True" and types = None and cursor = None, THEN conjunct2, THEN conjunct2, THEN conjunct2, THEN conjunct2, THEN conjunct2, THEN conjunct1])
  with call nok show ?thesis
    by (simp add: or_default_def format_error_def)
qed

section \<open>Upload source resolution\<close>

text \<open>
  C3 does not hold of the code for literal text with a name component of more than 255
  bytes: with the explicit filename \<open>notes.txt\<close>, the text of 256 letters is not a URL,
  \<open>os.path.isfile\<close> answers false, and \<open>Path(path).exists()\<close> raises \<open>OSError\<close>, which leaves
  \<open>upload_file\<close> and the facade before any branch is taken; nothing is uploaded.
\<close>

theorem upload_file_long_text_raises:
  "upload_file long_name_world (Single ''C123'') (replicate 256 (CHR ''a''))
       (Some ''notes.txt'') None None None =
     ([], Inl (OSError (''[Errno 36] File name too long: '' @ sq @
                          replicate 256 (CHR ''a'') @ sq))) \<and>
   upload_slack_file long_name_world (Single ''C123'') (replicate 256 (CHR ''a''))
       (Some ''notes.txt'') None None None =
     ([], Inl (OSError (''[Errno 36] File name too long: '' @ sq @
                          replicate 256 (CHR ''a'') @ sq)))"
  by (simp add: upload_file_def upload_slack_file_def on_result_def is_url_def
        is_file_path_def long_name_world_def)

text \<open>
  C5, as stated, fails: the lookup is a case-sensitive substring test. A URL without an
  extension whose response has the content type \<open>application/PDF\<close> is sent as
  \<open>downloaded_file\<close>, not under a \<open>.pdf\<close> name; and one with the content type
  \<open>application/x-iso9660-image\<close>, which is not an image type, is sent as
  \<open>downloaded_image.jpg\<close>.
\<close>

theorem url_upload_content_type_counterexample:
  "fst (upload_file (content_type_world (Some ''application/PDF'')) (Single ''C123'')
          ''https://example.com/download'' None None None None) =
     [HttpGet ''https://example.com/download'',
      SlackCall ''files_upload_v2''
        [(''channel'', ArgStr ''C123''), (''file'', ArgBytes ''data''),
         (''filename'', ArgStr ''downloaded_file''),
         (''title'', ArgStr ''File from https://example.com/download'')]] \<and>
   fst (upload_file (content_type_world (Some ''application/x-iso9660-image''))
          (Single ''C123'') ''https://example.com/download'' None None None None) =
     [HttpGet ''https://example.com/download'',
      SlackCall ''files_upload_v2''
        [(''channel'', ArgStr ''C123''), (''file'', ArgBytes ''data''),
         (''filename'', ArgStr ''downloaded_image.jpg''),
         (''title'', ArgStr ''File from https://example.com/download'')]]"
  by (simp add: content_type_world_def example_urlparse_def upload_from_url_def
        url_filename_def upload_file_def is_url_def supplied_def truthy_str_def basename_def
        upload_kwargs_def put_str_def caught_def safe_api_call_def comma_joined_def Let_def
        handle_response_def success_payload_def sublist_code)

text \<open>
  C5, amended. A URL upload without an explicit filename, whose fetch succeeds, sends as
  filename the final segment of the URL's path when that segment is not empty and
  contains a dot; otherwise \<open>downloaded_file.pdf\<close> when the response's content-type header
  contains the lower-case substring \<open>pdf\<close>, else \<open>downloaded_image.jpg\<close> when it contains
  the lower-case substring \<open>image\<close>, else \<open>downloaded_file\<close> (an absent header counts as
  empty).
\<close>

theorem url_upload_filename:
  assumes url: "is_url w url"
    and nofn: "\<not> truthy_str filename"
    and get: "http_get w url = HttpResponse header content"
    and parsed: "urlparse w url = Inr parsed"
    and seg: "path parsed = dir @ ''/'' @ seg \<or> path parsed = seg" "CHR ''/'' \<notin> set seg"
    and meth: "client_method w ''files_upload_v2'' = Some method"
    and ct: "content_type = (case header of None \<Rightarrow> [] | Some v \<Rightarrow> v)"
  shows "\<exists>name kw.
           fst (upload_file w channels url filename title initial_comment thread_ts) =
             [HttpGet url, SlackCall ''files_upload_v2'' kw] \<and>
           map_of kw ''filename'' = Some (ArgStr name) \<and>
           (seg \<noteq> [] \<and> CHR ''.'' \<in> set seg \<longrightarrow> name = seg) \<and>
           ((seg = [] \<or> CHR ''.'' \<notin> set seg) \<and> sublist ''pdf'' content_type \<longrightarrow>
              name = ''downloaded_file.pdf'') \<and>
           ((seg = [] \<or> CHR ''.'' \<notin> set seg) \<and> \<not> sublist ''pdf'' content_type \<and>
              sublist ''image'' content_type \<longrightarrow> name = ''downloaded_image.jpg'') \<and>
           ((seg = [] \<or> CHR ''.'' \<notin> set seg) \<and> \<not> sublist ''pdf'' content_type \<and>
              \<not> sublist ''image'' content_type \<longrightarrow> name = ''downloaded_file'')"
proof -
  have base: "basename (path parsed) = seg"
    using seg basename_final_segment basename_no_slash by metis
  define name where "name =
     (if seg = [] \<or> CHR ''.'' \<notin> set seg then
        (if sublist ''pdf'' content_type then ''downloaded_file.pdf''
         else if sublist ''image'' content_type then ''downloaded_image.jpg''
         else ''downloaded_file'')
      else seg)"
  have fn: "url_filename w url filename header = Inr name"
    using nofn parsed base ct
    by (simp add: url_filename_def supplied_def name_def Let_def)
  let ?kw = "upload_kwargs (comma_joined channels) (ArgBytes content) name title
               (''File from '' @ url) initial_comment thread_ts"
  have call: "fst (safe_api_call w ''files_upload_v2'' ?kw) = [SlackCall ''files_upload_v2'' ?kw]"
    using meth by (simp add: fst_safe_api_call)
  have "fst (upload_file w channels url filename title initial_comment thread_ts) =
          [HttpGet url, SlackCall ''files_upload_v2'' ?kw]"
    using url get fn call
    by (simp add: upload_file_def upload_from_url_def fst_cons_case fst_caught)
  moreover have "map_of ?kw ''filename'' = Some (ArgStr name)"
    by (rule filename_upload_kwargs)
  ultimately show ?thesis
    unfolding name_def by (intro exI [of _ name, unfolded name_def] exI [of _ ?kw, unfolded name_def]) auto
qed

theorem url_upload_filename_witness:
  "is_url (example_world (Returned success_payload)) ''https://example.com/a.pdf'' \<and>
   \<not> truthy_str None \<and>
   fst (upload_file (example_world (Returned success_payload)) (Single ''C123'')
          ''https://example.com/a.pdf'' None None None None) =
     [HttpGet ''https://example.com/a.pdf'',
      SlackCall ''files_upload_v2''
        [(''channel'', ArgStr ''C123''), (''file'', ArgBytes ''%PDF-1.4''),
         (''filename'', ArgStr ''a.pdf''),
         (''title'', ArgStr ''File from https://example.com/a.pdf'')]]"
proof -
  let ?w = "example_world (Returned success_payload)"
  let ?url = "''https://example.com/a.pdf''"
  have h1: "is_url ?w ?url"
    by (simp add: is_url_def example_world_def example_urlparse_def)
  have h2: "\<not> truthy_str None" by (simp add: truthy_str_def)
  have h3: "http_get ?w ?url = HttpResponse (Some ''application/pdf'') ''%PDF-1.4''"
    by (simp add: example_world_def)
  have h4: "urlparse ?w ?url =
      Inr \<lparr>scheme = ''https'', netloc = ''example.com'', path = ''/a.pdf''\<rparr>"
    by (simp add: example_world_def example_urlparse_def)
  have h5: "path \<lparr>scheme = ''https'', netloc = ''example.com'', path = ''/a.pdf''\<rparr> =
      [] @ ''/'' @ ''a.pdf'' \<or>
      path \<lparr>scheme = ''https'', netloc = ''example.com'', path = ''/a.pdf''\<rparr> = ''a.pdf''"
    by simp
  have h6: "CHR ''/'' \<notin> set ''a.pdf''" by simp
  have h7: "client_method ?w ''files_upload_v2'' = Some (\<lambda>kw. Returned success_payload)"
    by (simp add: example_world_def)
  have h8: "''application/pdf'' =
      (case Some ''application/pdf'' of None \<Rightarrow> [] | Some v \<Rightarrow> v)" by simp
  from url_upload_filename [OF h1 h2 h3 h4 h5 h6 h7 h8, of "Single ''C123''" None None None]
  obtain name kw where
    tr: "fst (upload_file ?w (Single ''C123'') ?url None None None None) =
           [HttpGet ?url, SlackCall ''files_upload_v2'' kw]"
    and nm: "map_of kw ''filename'' = Some (ArgStr name)" "name = ''a.pdf''"
    by auto
  have "fst (upload_file ?w (Single ''C123'') ?url None None None None) =
     [HttpGet ?url,
      SlackCall ''files_upload_v2''
        [(''channel'', ArgStr ''C123''), (''file'', ArgBytes ''%PDF-1.4''),
         (''filename'', ArgStr ''a.pdf''),
         (''title'', ArgStr ''File from https://example.com/a.pdf'')]]"
    by (simp add: example_world_def example_urlparse_def upload_from_url_def url_filename_def
        upload_file_def is_url_def supplied_def truthy_str_def basename_def upload_kwargs_def
        put_str_def caught_def safe_api_call_def comma_joined_def Let_def)
  with h1 h2 tr show ?thesis by simp
qed

section \<open>Outbound parameter mappings\<close>




section \<open>Listing users\<close>

text \<open>
  C10. When listing users returns a list, the adapter's envelope is ok, and the list has
  one entry, in order, for each member of the payload whose \<open>deleted\<close> flag is not set,
  that entry being the member's reshaped fields; members flagged deleted have none.
\<close>

theorem list_slack_users_excludes_deleted:
  assumes "snd (list_slack_users w limit cursor) = Inr out"
  shows "\<exists>r members entries_out.
           snd (list_users w (or_default 100 limit) cursor) = Inr r \<and> ok r \<and>
           py_iter (dict_get (entries (data r)) ''members'' (JList [])) = Inr members \<and>
           out = JList entries_out \<and>
           list_all2 (\<lambda>user entry. user_entry user = Inr entry)
             (filter (\<lambda>user. \<not> flagged_deleted user) members) entries_out"
proof -
  obtain tr res where lu: "list_users w (or_default 100 limit) cursor = (tr, res)"
    by (cases "list_users w (or_default 100 limit) cursor")
  from assms lu obtain r where r: "res = Inr r" "ok r"
    by (auto simp: list_slack_users_def on_result_def split: sum.splits if_splits)
  from assms lu r obtain members where
    m: "py_iter (dict_get (entries (data r)) ''members'' (JList [])) = Inr members"
    by (auto simp: list_slack_users_def on_result_def split: sum.splits)
  from assms lu r m obtain es where
    es: "comprehension not_deleted user_entry members = Inr es" "out = JList es"
    by (auto simp: list_slack_users_def on_result_def split: sum.splits)
  from comprehension_filter [OF es(1)]
  have all: "\<forall>x \<in> set members. \<exists>b. not_deleted x = Inr b"
    and l2: "list_all2 (\<lambda>x y. user_entry x = Inr y)
               (filter (\<lambda>x. not_deleted x = Inr True) members) es"
    by simp_all
  have "filter (\<lambda>x. not_deleted x = Inr True) members =
        filter (\<lambda>user. \<not> flagged_deleted user) members"
  proof (rule filter_cong [OF refl])
    fix x assume "x \<in> set members"
    with all obtain b where "not_deleted x = Inr b" by blast
    then show "(not_deleted x = Inr True) = (\<not> flagged_deleted x)"
      using not_deleted_dict by fastforce
  qed
  with l2 have "list_all2 (\<lambda>user entry. user_entry user = Inr entry)
             (filter (\<lambda>user. \<not> flagged_deleted user) members) es" by simp
  with lu r m es show ?thesis by simp
qed

theorem list_slack_users_excludes_deleted_witness:
  "snd (list_slack_users (example_world (Returned example_members)) None None) =
     Inr (JList [JObj [(''id'', JStr ''U1''), (''name'', JStr ''ann''),
                       (''real_name'', JStr []), (''display_name'', JStr []),
                       (''email'', JStr []), (''is_bot'', JBool False),
                       (''is_admin'', JBool False), (''status_text'', JStr []),
                       (''status_emoji'', JStr []), (''timezone'', JStr [])]])"
proof -
  let ?w = "example_world (Returned example_members)"
  let ?out = "JList [JObj [(''id'', JStr ''U1''), (''name'', JStr ''ann''),
                       (''real_name'', JStr []), (''display_name'', JStr []),
                       (''email'', JStr []), (''is_bot'', JBool False),
                       (''is_admin'', JBool False), (''status_text'', JStr []),
                       (''status_emoji'', JStr []), (''timezone'', JStr [])]]"
  have e: "snd (list_slack_users ?w None None) = Inr ?out"
    by (simp add: list_slack_users_def list_users_def on_result_def or_default_def put_str_def
          safe_api_call_def example_world_def handle_response_def example_members_def
          dict_get_def py_iter_def not_deleted_def attr_get_def attr_get2_def user_entry_def
          build_dict_def Let_def)
  from list_slack_users_excludes_deleted [OF e] e show ?thesis by simp
qed


end
